theory Spec2Isabelle
  imports Main
begin

section \<open>JavaScript values and strings\<close>

text \<open>
  Strings are lists of \<^typ>\<open>char\<close>; the model covers ASCII code units, which is what
  the permission names, status names, cookie names and paths of the program are made of.
  \<open>toLowerCase\<close> lowers the letters A to Z; \<open>trim\<close> removes the ASCII white space and
  line terminators of ECMAScript (TAB, LF, VT, FF, CR, SP) from both ends.
\<close>

definition toLowerChar :: "char \<Rightarrow> char" where
  "toLowerChar c =
     (case map_of (zip ''ABCDEFGHIJKLMNOPQRSTUVWXYZ'' ''abcdefghijklmnopqrstuvwxyz'') c of
        None \<Rightarrow> c
      | Some l \<Rightarrow> l)"

definition toLowerCase :: "string \<Rightarrow> string" where
  "toLowerCase s = map toLowerChar s"

definition isWhiteSpace :: "char \<Rightarrow> bool" where
  "isWhiteSpace c = (c \<in> set [CHR 0x09, CHR 0x0A, CHR 0x0B, CHR 0x0C, CHR 0x0D, CHR '' ''])"

definition trim :: "string \<Rightarrow> string" where
  "trim s = dropWhile isWhiteSpace (rev (dropWhile isWhiteSpace (rev s)))"

text \<open>
  A JavaScript number is kept as far as the program looks at it: an integer-valued finite
  number with its value, a finite number with a fractional part, NaN, or an infinity.
\<close>

datatype js_number = Integral int | Fractional | NaN | Infinite

text \<open>
  The values a JSON request body or a function argument can hold. \<open>Object s\<close> is an array
  or a plain object whose conversion to a primitive is the string \<open>s\<close>.
\<close>

datatype js_value =
    Undefined
  | Null
  | Bool bool
  | Number js_number
  | String string
  | Object string

fun truthy :: "js_value \<Rightarrow> bool" where
  "truthy Undefined = False"
| "truthy Null = False"
| "truthy (Bool b) = b"
| "truthy (Number (Integral i)) = (i \<noteq> 0)"
| "truthy (Number NaN) = False"
| "truthy (Number _) = True"
| "truthy (String s) = (s \<noteq> [])"
| "truthy (Object _) = True"

text \<open>
  \<open>Number(v)\<close>. The conversion of a string to a number rounds to a double, which the
  model does not compute: it is the parameter \<open>StringToNumber\<close>.
\<close>

fun ToNumber :: "(string \<Rightarrow> js_number) \<Rightarrow> js_value \<Rightarrow> js_number" where
  "ToNumber StringToNumber Undefined = NaN"
| "ToNumber StringToNumber Null = Integral 0"
| "ToNumber StringToNumber (Bool b) = Integral (if b then 1 else 0)"
| "ToNumber StringToNumber (Number n) = n"
| "ToNumber StringToNumber (String s) = StringToNumber s"
| "ToNumber StringToNumber (Object s) = StringToNumber s"

fun Number_isInteger :: "js_number \<Rightarrow> bool" where
  "Number_isInteger (Integral i) = True"
| "Number_isInteger _ = False"

text \<open>
  A thrown \<open>Error\<close>: its name and its message. \<open>err?.message || err\<close> inside a string
  concatenation is the message when it is not empty, and otherwise \<open>err.toString()\<close>,
  which for an empty message is the name.
\<close>

datatype error = Error (err_name: string) (err_message: string)

definition message_or_err :: "error \<Rightarrow> string" where
  "message_or_err err = (if err_message err \<noteq> [] then err_message err else err_name err)"

text \<open>
  \<open>new Set(xs)\<close> keeps the first occurrence of every element, in insertion order;
  \<open>Array.from\<close> lists it in that order. A Set is modelled by that list.
\<close>

definition new_Set :: "'a list \<Rightarrow> 'a list" where
  "new_Set xs = rev (remdups (rev xs))"

definition Set_has :: "'a list \<Rightarrow> 'a \<Rightarrow> bool" where
  "Set_has s x = (x \<in> set s)"


section \<open>The relational store\<close>

text \<open>
  The tables of schema \<open>in_kind_tracker\<close> that the session and authorization code reads
  and writes, with the columns it names. Nullable columns are options. \<open>db_now\<close> is the
  value of \<open>NOW()\<close>.
\<close>

record user_account_row =
  ua_user_id :: int
  ua_username :: string
  ua_name :: "string option"
  ua_status :: "string option"
  ua_role_id :: "int option"
  ua_last_login_at :: "nat option"

record role_row =
  r_role_id :: int
  r_role_name :: "string option"
  r_default_route :: "string option"

record role_permission_row =
  rp_role_id :: int
  rp_permission_id :: int

record permission_row =
  p_permission_id :: int
  p_permission :: "string option"

record user_session_row =
  s_session_id :: string
  s_user_id :: int

record database =
  user_account :: "user_account_row list"
  role_tbl :: "role_row list"
  role_permission :: "role_permission_row list"
  permission :: "permission_row list"
  user_session :: "user_session_row list"
  db_now :: nat

text \<open>The statements the code sends, with their parameters.\<close>

datatype sql =
    BEGIN
  | COMMIT
  | ROLLBACK
  | SelectUserPermissions int
  | SelectUserForLogin int
  | SelectUserBySession string
  | UpdateUserLogin int
  | InsertSession string int
  | DeleteSession string
  | TouchSession string

text \<open>What happens, in program order: store calls, and the moment a response is sent.\<close>

datatype event =
    PoolConnect
  | PoolQuery sql
  | ClientQuery sql
  | ClientRelease
  | Respond nat

text \<open>
  The world a handler runs in: the committed database; the working copy of the
  transaction open on the dedicated client, if any; the trace of events so far; the
  number of store calls made so far; and the store calls that throw (by their number,
  with the error thrown).
\<close>

record world =
  committed :: database
  tx :: "database option"
  trace :: "event list"
  ops :: nat
  faults :: "(nat \<times> error) list"

type_synonym 'a io = "world \<Rightarrow> (error + 'a) \<times> world"

definition resolve :: "'a \<Rightarrow> 'a io" where
  "resolve a w = (Inr a, w)"

definition throw :: "error \<Rightarrow> 'a io" where
  "throw e w = (Inl e, w)"

text \<open>\<open>await m f\<close>: run \<open>m\<close>; a thrown error skips \<open>f\<close>.\<close>

definition await :: "'a io \<Rightarrow> ('a \<Rightarrow> 'b io) \<Rightarrow> 'b io" where
  "await m f w = (case m w of (Inl e, w') \<Rightarrow> (Inl e, w') | (Inr a, w') \<Rightarrow> f a w')"

text \<open>
  A call to the store is recorded in the trace and counted; it throws when its number is
  in \<open>faults\<close>, and then has no effect on the data. Whatever makes the store reject a
  call (a lost connection, a violated constraint, a parameter out of the column's range)
  is such a fault.
\<close>

definition store_call :: "event \<Rightarrow> (world \<Rightarrow> 'a \<times> world) \<Rightarrow> 'a io" where
  "store_call ev run w =
     (let w1 = w\<lparr>trace := trace w @ [ev], ops := Suc (ops w)\<rparr> in
      case map_of (faults w) (ops w) of
        Some e \<Rightarrow> (Inl e, w1)
      | None \<Rightarrow> (case run w1 of (a, w2) \<Rightarrow> (Inr a, w2)))"

text \<open>\<open>pool.query\<close>: one statement, committed at once.\<close>

definition pool_query :: "sql \<Rightarrow> (database \<Rightarrow> 'a \<times> database) \<Rightarrow> 'a io" where
  "pool_query q run =
     store_call (PoolQuery q)
       (\<lambda>w. case run (committed w) of (a, db) \<Rightarrow> (a, w\<lparr>committed := db\<rparr>))"

text \<open>
  \<open>client.query\<close> on the dedicated client: inside a transaction it works on the
  transaction's copy, outside it commits at once.
\<close>

definition client_query :: "sql \<Rightarrow> (database \<Rightarrow> 'a \<times> database) \<Rightarrow> 'a io" where
  "client_query q run =
     store_call (ClientQuery q)
       (\<lambda>w. case tx w of
               Some d \<Rightarrow> (case run d of (a, d') \<Rightarrow> (a, w\<lparr>tx := Some d'\<rparr>))
             | None \<Rightarrow> (case run (committed w) of (a, db) \<Rightarrow> (a, w\<lparr>committed := db\<rparr>)))"

definition client_begin :: "unit io" where
  "client_begin =
     store_call (ClientQuery BEGIN)
       (\<lambda>w. ((), case tx w of None \<Rightarrow> w\<lparr>tx := Some (committed w)\<rparr> | Some d \<Rightarrow> w))"

definition client_commit :: "unit io" where
  "client_commit =
     store_call (ClientQuery COMMIT)
       (\<lambda>w. ((), case tx w of None \<Rightarrow> w | Some d \<Rightarrow> w\<lparr>committed := d, tx := None\<rparr>))"

definition client_rollback :: "unit io" where
  "client_rollback =
     store_call (ClientQuery ROLLBACK) (\<lambda>w. ((), w\<lparr>tx := None\<rparr>))"

definition pool_connect :: "unit io" where
  "pool_connect = store_call PoolConnect (\<lambda>w. ((), w))"

definition client_release :: "world \<Rightarrow> world" where
  "client_release w = w\<lparr>trace := trace w @ [ClientRelease]\<rparr>"


section \<open>Permission resolution (middleware/authorization.js)\<close>

text \<open>
  \<open>A LEFT JOIN B ON on\<close>: every row of A with each matching row of B, or with NULL
  when none matches.
\<close>

definition left_join :: "'a list \<Rightarrow> 'b list \<Rightarrow> ('a \<Rightarrow> 'b \<Rightarrow> bool) \<Rightarrow> ('a \<times> 'b option) list" where
  "left_join as bs on =
     concat (map (\<lambda>a. case filter (on a) bs of
                         [] \<Rightarrow> [(a, None)]
                       | ms \<Rightarrow> map (\<lambda>b. (a, Some b)) ms) as)"

text \<open>
  The statement of \<open>queryUserPermissions\<close>:
  \<^verbatim>\<open>SELECT DISTINCT p.permission FROM user_account ua
  LEFT JOIN role_permission rp ON rp.role_id = ua.role_id
  LEFT JOIN permission p ON p.permission_id = rp.permission_id
  WHERE ua.user_id = $1 AND p.permission IS NOT NULL\<close>
  A comparison with NULL is not true, so a NULL \<open>role_id\<close> or a NULL \<open>rp\<close> row matches
  nothing.
\<close>

definition select_user_permissions :: "int \<Rightarrow> database \<Rightarrow> string list" where
  "select_user_permissions userId db =
     (let ua_rp = left_join (user_account db) (role_permission db)
                    (\<lambda>ua rp. ua_role_id ua = Some (rp_role_id rp));
          ua_rp_p = left_join ua_rp (permission db)
                    (\<lambda>(ua, rpo) p. case rpo of
                                      None \<Rightarrow> False
                                    | Some rp \<Rightarrow> p_permission_id p = rp_permission_id rp);
          selected = filter (\<lambda>((ua, rpo), po). ua_user_id ua = userId \<and>
                               (case po of None \<Rightarrow> False | Some p \<Rightarrow> p_permission p \<noteq> None))
                       ua_rp_p
      in remdups (concat (map (\<lambda>((ua, rpo), po).
                    case po of None \<Rightarrow> []
                    | Some p \<Rightarrow> (case p_permission p of None \<Rightarrow> [] | Some n \<Rightarrow> [n])) selected)))"

definition queryUserPermissions :: "int \<Rightarrow> string list io" where
  "queryUserPermissions userId =
     await (pool_query (SelectUserPermissions userId)
              (\<lambda>db. (select_user_permissions userId db, db)))
       (\<lambda>rows. resolve (map toLowerCase rows))"


text \<open>
  A user as \<open>normalizeUserRow\<close> returns it: the row of \<open>user_account\<close> with the
  name and default route of its role, the role name repeated as \<open>role\<close> and \<open>app_role\<close>.
\<close>

record user =
  user_id :: int
  role_id :: "int option"
  role_name :: "string option"
  role :: "string option"
  app_role :: "string option"
  default_route :: "string option"
  username :: string
  name :: "string option"
  status :: "string option"
  last_login_at :: "nat option"

text \<open>
  The request, as far as the code reads it: method, path, the \<open>Cookie\<close> header,
  \<open>body.user_id\<close> (\<open>Undefined\<close> when the body or the property is missing), and what
  the middleware attaches: \<open>user\<close>, \<open>sessionId\<close> and the cached permission Set.
\<close>

record request =
  req_method :: string
  req_path :: string
  req_cookie :: "string option"
  req_body_user_id :: js_value
  req_user :: "user option"
  req_sessionId :: "string option"
  req_userPermissions :: "string list option"

datatype cookie = SetCookie string | ClearCookie

datatype body = NoBody | ErrorJson string | UserJson user "string list"

record response =
  res_status :: nat
  res_body :: body
  res_cookie :: "cookie option"

definition new_response :: response where
  "new_response = \<lparr>res_status = 200, res_body = NoBody, res_cookie = None\<rparr>"

text \<open>\<open>res.status(code).json(body)\<close> and \<open>res.status(code).send()\<close>: the response is sent.\<close>

definition send :: "response \<Rightarrow> nat \<Rightarrow> body \<Rightarrow> world \<Rightarrow> response \<times> world" where
  "send res code b w =
     (res\<lparr>res_status := code, res_body := b\<rparr>, w\<lparr>trace := trace w @ [Respond code]\<rparr>)"

text \<open>\<open>try { body } catch (err) { handler }\<close>\<close>

definition try_catch :: "'a io \<Rightarrow> (error \<Rightarrow> world \<Rightarrow> 'a \<times> world) \<Rightarrow> world \<Rightarrow> 'a \<times> world" where
  "try_catch block handler w =
     (case block w of (Inl err, w') \<Rightarrow> handler err w' | (Inr a, w') \<Rightarrow> (a, w'))"

definition READ_METHODS :: "string list" where
  "READ_METHODS = [''GET'', ''HEAD'']"

text \<open>
  \<open>getUserPermissions(req)\<close>: the Set cached on the request, filled by one query the
  first time. It returns the Set and the request with the cache.
\<close>

definition getUserPermissions :: "request \<Rightarrow> (string list \<times> request) io" where
  "getUserPermissions req =
     (case req_user req of
        None \<Rightarrow> resolve (new_Set [], req)
      | Some u \<Rightarrow>
          (case req_userPermissions req of
             None \<Rightarrow>
               await (queryUserPermissions (user_id u))
                 (\<lambda>permissions.
                    let s = new_Set permissions
                    in resolve (s, req\<lparr>req_userPermissions := Some s\<rparr>))
           | Some cached \<Rightarrow> resolve (cached, req)))"

text \<open>\<open>read ? read.toLowerCase() : null\<close>, for a name that may be missing.\<close>

definition required :: "string option \<Rightarrow> string option" where
  "required p = (case p of None \<Rightarrow> None
                 | Some s \<Rightarrow> if s \<noteq> [] then Some (toLowerCase s) else None)"

text \<open>\<open>permission && permissions.has(permission)\<close>\<close>

definition hasPermission :: "string list \<Rightarrow> string option \<Rightarrow> bool" where
  "hasPermission permissions p =
     (case p of None \<Rightarrow> False | Some s \<Rightarrow> s \<noteq> [] \<and> Set_has permissions s)"

datatype outcome = Next | Sent response

text \<open>
  The gate \<open>requirePermissions({ read, manage })\<close> applied to a request: it calls
  \<open>next()\<close> or sends a response, and leaves the permission cache on the request.
\<close>

definition requirePermissions ::
  "string option \<Rightarrow> string option \<Rightarrow> request \<Rightarrow> world \<Rightarrow> (outcome \<times> request) \<times> world" where
  "requirePermissions read manage req =
     (let requiredRead = required read;
          requiredManage = required manage;
          reply = (\<lambda>code msg rq w.
                     case send new_response code (ErrorJson msg) w of
                       (res, w') \<Rightarrow> ((Sent res, rq), w'))
      in try_catch
           (if req_method req = ''OPTIONS'' then resolve (Next, req)
            else if req_user req = None then
              (\<lambda>w. case reply 401 ''Not authenticated'' req w of (a, w') \<Rightarrow> (Inr a, w'))
            else
              await (getUserPermissions req)
                (\<lambda>(permissions, req').
                   if req_method req \<in> set READ_METHODS then
                     (if hasPermission permissions requiredRead
                         \<or> hasPermission permissions requiredManage
                      then resolve (Next, req')
                      else (\<lambda>w. case reply 403 ''Forbidden'' req' w of (a, w') \<Rightarrow> (Inr a, w')))
                   else if hasPermission permissions requiredManage then resolve (Next, req')
                   else (\<lambda>w. case reply 403 ''Forbidden'' req' w of (a, w') \<Rightarrow> (Inr a, w'))))
           (\<lambda>err. reply 500 (''Internal server error, '' @ message_or_err err) req))"

text \<open>
  \<open>listUserPermissions(userId)\<close>. Both call sites pass the integer \<open>user_id\<close> of a
  fetched row; the statement's parameter is compared with the integer column
  \<open>user_id\<close>. A truthy argument that is not an integer number, which no call site
  passes, is taken to make the statement fail.
\<close>

definition listUserPermissions :: "js_value \<Rightarrow> string list io" where
  "listUserPermissions userId =
     (if \<not> truthy userId then resolve []
      else (case userId of
              Number (Integral i) \<Rightarrow>
                await (queryUserPermissions i) (\<lambda>permissions. resolve (new_Set permissions))
            | _ \<Rightarrow> throw (Error ''error'' ''invalid input syntax for type integer'')))"



section \<open>Sessions, login and logout (routes/auth.js)\<close>

definition USER_STATUSES :: "string list" where
  "USER_STATUSES = [''pending'', ''active'', ''inactive'']"

text \<open>The cookie name, at its default (\<open>SESSION_COOKIE_NAME\<close> unset).\<close>

definition SESSION_COOKIE_NAME :: string where
  "SESSION_COOKIE_NAME = ''pp_session''"

definition setSessionCookie :: "response \<Rightarrow> string \<Rightarrow> response" where
  "setSessionCookie res sessionId = res\<lparr>res_cookie := Some (SetCookie sessionId)\<rparr>"

definition clearSessionCookie :: "response \<Rightarrow> response" where
  "clearSessionCookie res = res\<lparr>res_cookie := Some ClearCookie\<rparr>"

definition normalizeUserRow :: "user_account_row \<times> role_row option \<Rightarrow> user" where
  "normalizeUserRow row =
     (case row of (ua, ro) \<Rightarrow>
        let rn = (case ro of None \<Rightarrow> None | Some r \<Rightarrow> r_role_name r);
            dr = (case ro of None \<Rightarrow> None | Some r \<Rightarrow> r_default_route r)
        in \<lparr>user_id = ua_user_id ua, role_id = ua_role_id ua, role_name = rn, role = rn,
            app_role = rn, default_route = dr, username = ua_username ua, name = ua_name ua,
            status = ua_status ua, last_login_at = ua_last_login_at ua\<rparr>)"

text \<open>
  \<^verbatim>\<open>SELECT ua.*, r.role_name, r.default_route FROM user_account ua
  LEFT JOIN role r ON r.role_id = ua.role_id WHERE ua.user_id = $1 LIMIT 1\<close>
\<close>

definition select_user_for_login :: "int \<Rightarrow> database \<Rightarrow> (user_account_row \<times> role_row option) list" where
  "select_user_for_login userId db =
     take 1 (filter (\<lambda>(ua, ro). ua_user_id ua = userId)
               (left_join (user_account db) (role_tbl db)
                  (\<lambda>ua r. ua_role_id ua = Some (r_role_id r))))"

text \<open>\<open>fetchUserForLogin(userId, client)\<close>, on the dedicated client as login calls it.\<close>

definition fetchUserForLogin :: "int \<Rightarrow> user option io" where
  "fetchUserForLogin userId =
     await (client_query (SelectUserForLogin userId) (\<lambda>db. (select_user_for_login userId db, db)))
       (\<lambda>rows. resolve (case rows of [] \<Rightarrow> None | row # _ \<Rightarrow> Some (normalizeUserRow row)))"

definition inner_join :: "'a list \<Rightarrow> 'b list \<Rightarrow> ('a \<Rightarrow> 'b \<Rightarrow> bool) \<Rightarrow> ('a \<times> 'b) list" where
  "inner_join as bs on = concat (map (\<lambda>a. map (\<lambda>b. (a, b)) (filter (on a) bs)) as)"

text \<open>
  \<^verbatim>\<open>SELECT s.session_id, ua.*, r.role_name, r.default_route FROM user_session s
  JOIN user_account ua ON ua.user_id = s.user_id
  LEFT JOIN role r ON r.role_id = ua.role_id WHERE s.session_id = $1 LIMIT 1\<close>
\<close>

definition select_user_by_session ::
  "string \<Rightarrow> database \<Rightarrow> ((user_session_row \<times> user_account_row) \<times> role_row option) list" where
  "select_user_by_session sessionId db =
     take 1 (filter (\<lambda>((s, ua), ro). s_session_id s = sessionId)
               (left_join
                  (inner_join (user_session db) (user_account db)
                     (\<lambda>s ua. ua_user_id ua = s_user_id s))
                  (role_tbl db)
                  (\<lambda>(s, ua) r. ua_role_id ua = Some (r_role_id r))))"

definition fetchUserBySession :: "string \<Rightarrow> user option io" where
  "fetchUserBySession sessionId =
     await (pool_query (SelectUserBySession sessionId)
              (\<lambda>db. (select_user_by_session sessionId db, db)))
       (\<lambda>rows. resolve (case rows of
                          [] \<Rightarrow> None
                        | ((s, ua), ro) # _ \<Rightarrow> Some (normalizeUserRow (ua, ro))))"


subsection \<open>Reading the session id from the Cookie header\<close>

text \<open>\<open>s.split(sep)\<close> for a one-character separator, and \<open>parts.join(sep)\<close>.\<close>

fun String_split :: "char \<Rightarrow> string \<Rightarrow> string list" where
  "String_split sep [] = [[]]"
| "String_split sep (c # s) =
     (if c = sep then [] # String_split sep s
      else (case String_split sep s of
              [] \<Rightarrow> [[c]]
            | p # ps \<Rightarrow> (c # p) # ps))"

fun Array_join :: "char \<Rightarrow> string list \<Rightarrow> string" where
  "Array_join sep [] = []"
| "Array_join sep [p] = p"
| "Array_join sep (p # q # ps) = p @ sep # Array_join sep (q # ps)"

text \<open>
  \<open>decodeURIComponent\<close>, after the Decode operation of ECMAScript. The string is read
  as code units and \<open>%XX\<close> escapes. An escape below 0x80 is that character. An escape
  with \<open>n\<close> leading one bits starts a sequence of \<open>n\<close> escapes that must be the UTF-8
  encoding of a code point, which the model keeps as its UTF-8 bytes. Everything else
  throws \<open>URIError\<close>.
\<close>

definition hexDigits :: "(char \<times> nat) list" where
  "hexDigits = zip ''0123456789abcdefABCDEF''
                   [0, 1, 2, 3, 4, 5, 6, 7, 8, 9, 10, 11, 12, 13, 14, 15, 10, 11, 12, 13, 14, 15]"

definition ParseHexOctet :: "char \<Rightarrow> char \<Rightarrow> nat option" where
  "ParseHexOctet h l =
     (case map_of hexDigits h of
        None \<Rightarrow> None
      | Some a \<Rightarrow> (case map_of hexDigits l of None \<Rightarrow> None | Some b \<Rightarrow> Some (16 * a + b)))"

datatype token = Unit char | Escape nat | Malformed

fun tokens :: "string \<Rightarrow> token list" where
  "tokens [] = []"
| "tokens (c # s) =
     (if c \<noteq> CHR ''%'' then Unit c # tokens s
      else (case s of
              h # l # s' \<Rightarrow>
                (case ParseHexOctet h l of
                   None \<Rightarrow> [Malformed]
                 | Some b \<Rightarrow> Escape b # tokens s')
            | _ \<Rightarrow> [Malformed]))"

text \<open>The number of leading one bits of an octet; 5 stands for more than 4.\<close>

definition leading_ones :: "nat \<Rightarrow> nat" where
  "leading_ones b =
     (if b < 128 then 0 else if b < 192 then 1 else if b < 224 then 2
      else if b < 240 then 3 else if b < 248 then 4 else 5)"

definition continuation :: "nat \<Rightarrow> bool" where
  "continuation b = (128 \<le> b \<and> b \<le> 191)"

text \<open>Well-formed UTF-8 sequences of two, three and four octets.\<close>

definition valid_utf8 :: "nat list \<Rightarrow> bool" where
  "valid_utf8 bs =
     (case bs of
        [b0, b1] \<Rightarrow> 194 \<le> b0 \<and> b0 \<le> 223 \<and> continuation b1
      | [b0, b1, b2] \<Rightarrow>
          (b0 = 224 \<and> 160 \<le> b1 \<and> b1 \<le> 191 \<or>
           225 \<le> b0 \<and> b0 \<le> 236 \<and> continuation b1 \<or>
           b0 = 237 \<and> 128 \<le> b1 \<and> b1 \<le> 159 \<or>
           238 \<le> b0 \<and> b0 \<le> 239 \<and> continuation b1) \<and> continuation b2
      | [b0, b1, b2, b3] \<Rightarrow>
          (b0 = 240 \<and> 144 \<le> b1 \<and> b1 \<le> 191 \<or>
           241 \<le> b0 \<and> b0 \<le> 243 \<and> continuation b1 \<or>
           b0 = 244 \<and> 128 \<le> b1 \<and> b1 \<le> 143) \<and> continuation b2 \<and> continuation b3
      | _ \<Rightarrow> False)"

fun escape_octets :: "token list \<Rightarrow> nat list option" where
  "escape_octets [] = Some []"
| "escape_octets (Escape b # ts) = map_option (\<lambda>bs. b # bs) (escape_octets ts)"
| "escape_octets (_ # ts) = None"

function decode_tokens :: "token list \<Rightarrow> string option" where
  "decode_tokens [] = Some []"
| "decode_tokens (Unit c # ts) = map_option (\<lambda>r. c # r) (decode_tokens ts)"
| "decode_tokens (Malformed # ts) = None"
| "decode_tokens (Escape b # ts) =
     (let n = leading_ones b in
      if n = 0 then map_option (\<lambda>r. char_of b # r) (decode_tokens ts)
      else if n = 1 \<or> n > 4 then None
      else (case escape_octets (take (n - 1) ts) of
              None \<Rightarrow> None
            | Some bs \<Rightarrow>
                if length bs = n - 1 \<and> valid_utf8 (b # bs)
                then map_option (\<lambda>r. map char_of (b # bs) @ r) (decode_tokens (drop (n - 1) ts))
                else None))"
  by pat_completeness auto
termination
  by (relation "measure length") auto

definition URIError :: error where
  "URIError = Error ''URIError'' ''URI malformed''"

definition decodeURIComponent :: "string \<Rightarrow> error + string" where
  "decodeURIComponent s =
     (case decode_tokens (tokens s) of None \<Rightarrow> Inl URIError | Some r \<Rightarrow> Inr r)"

text \<open>
  The loop of \<open>extractSessionId\<close> over the parts of the header: the value of the first
  cookie named \<open>SESSION_COOKIE_NAME\<close>, decoded; \<open>None\<close> is \<open>null\<close>. The callers
  test the result for truthiness: \<open>null\<close> and the empty string count as no session id.
\<close>

fun find_session_cookie :: "string list \<Rightarrow> error + string option" where
  "find_session_cookie [] = Inr None"
| "find_session_cookie (cookie # cookies) =
     (case String_split (CHR ''='') (trim cookie) of
        [] \<Rightarrow> find_session_cookie cookies
      | key # rest \<Rightarrow>
          if key = SESSION_COOKIE_NAME then
            (case decodeURIComponent (Array_join (CHR ''='') rest) of
               Inl err \<Rightarrow> Inl err
             | Inr v \<Rightarrow> Inr (Some v))
          else find_session_cookie cookies)"

definition extractSessionId :: "request \<Rightarrow> error + string option" where
  "extractSessionId req =
     (case req_cookie req of
        None \<Rightarrow> Inr None
      | Some cookieHeader \<Rightarrow>
          if cookieHeader = [] then Inr None
          else find_session_cookie (String_split (CHR '';'') cookieHeader))"

text \<open>Lifting a value that may have thrown, and a sent response, into \<open>io\<close>.\<close>

definition of_result :: "error + 'a \<Rightarrow> 'a io" where
  "of_result r w = (r, w)"

definition sending :: "response \<Rightarrow> nat \<Rightarrow> body \<Rightarrow> response io" where
  "sending res code b w = (case send res code b w of (res', w') \<Rightarrow> (Inr res', w'))"

definition internal_error :: "response \<Rightarrow> error \<Rightarrow> world \<Rightarrow> response \<times> world" where
  "internal_error res err =
     send res 500 (ErrorJson (''Internal server error, '' @ message_or_err err))"

subsection \<open>Logout\<close>

text \<open>\<^verbatim>\<open>DELETE FROM user_session WHERE session_id = $1\<close>\<close>

definition delete_session :: "string \<Rightarrow> database \<Rightarrow> database" where
  "delete_session sessionId db =
     db\<lparr>user_session := filter (\<lambda>s. s_session_id s \<noteq> sessionId) (user_session db)\<rparr>"

definition logout :: "request \<Rightarrow> world \<Rightarrow> response \<times> world" where
  "logout req =
     try_catch
       (await (of_result (extractSessionId req))
          (\<lambda>sessionId.
             await (case sessionId of
                      None \<Rightarrow> resolve ()
                    | Some sid \<Rightarrow>
                        if sid \<noteq> []
                        then pool_query (DeleteSession sid) (\<lambda>db. ((), delete_session sid db))
                        else resolve ())
               (\<lambda>_. sending (clearSessionCookie new_response) 204 NoBody)))
       (internal_error new_response)"

subsection \<open>Login\<close>

text \<open>
  \<^verbatim>\<open>UPDATE user_account SET status = CASE WHEN status = 'pending' THEN 'active'
  ELSE status END, last_login_at = NOW() WHERE user_id = $1\<close>
\<close>

definition update_user_login :: "int \<Rightarrow> database \<Rightarrow> database" where
  "update_user_login userId db =
     db\<lparr>user_account :=
          map (\<lambda>ua. if ua_user_id ua = userId
                    then ua\<lparr>ua_status := (if ua_status ua = Some ''pending''
                                          then Some ''active'' else ua_status ua),
                            ua_last_login_at := Some (db_now db)\<rparr>
                    else ua)
              (user_account db)\<rparr>"

text \<open>\<^verbatim>\<open>INSERT INTO user_session (session_id, user_id) VALUES ($1, $2)\<close>\<close>

definition insert_session :: "string \<Rightarrow> int \<Rightarrow> database \<Rightarrow> database" where
  "insert_session sessionId userId db =
     db\<lparr>user_session := user_session db @ [\<lparr>s_session_id = sessionId, s_user_id = userId\<rparr>]\<rparr>"

text \<open>
  The part of the \<open>try\<close> block of login that runs while the handler holds the client,
  from \<open>BEGIN\<close> to \<open>COMMIT\<close>. It ends in one of three ways: a statement throws; the
  handler returns early, having rolled back and sent a 404 or 403 (\<open>Inl\<close>); or the
  transaction is committed (\<open>Inr\<close>, with \<open>user\<close> and \<open>loggedInUser\<close>).
\<close>

definition login_transaction ::
  "string \<Rightarrow> int \<Rightarrow> (response + user \<times> user option) io" where
  "login_transaction sessionId userId =
     await client_begin (\<lambda>_.
     await (fetchUserForLogin userId) (\<lambda>found.
       case found of
         None \<Rightarrow>
           await client_rollback (\<lambda>_.
           await (sending new_response 404 (ErrorJson ''User not found'')) (\<lambda>res.
           resolve (Inl res)))
       | Some u \<Rightarrow>
           let normalizedStatus =
                 toLowerCase (trim (case status u of None \<Rightarrow> [] | Some s \<Rightarrow> s))
           in if normalizedStatus \<notin> set USER_STATUSES \<or> normalizedStatus = ''inactive'' then
                await client_rollback (\<lambda>_.
                let message = (if normalizedStatus = ''inactive''
                               then ''User account is inactive''
                               else ''User status does not permit login'')
                in await (sending new_response 403 (ErrorJson message)) (\<lambda>res.
                   resolve (Inl res)))
              else
                await (client_query (UpdateUserLogin (user_id u))
                         (\<lambda>db. ((), update_user_login (user_id u) db))) (\<lambda>_.
                await (client_query (InsertSession sessionId (user_id u))
                         (\<lambda>db. ((), insert_session sessionId (user_id u) db))) (\<lambda>_.
                await (fetchUserForLogin (user_id u)) (\<lambda>loggedInUser.
                await client_commit (\<lambda>_.
                resolve (Inr (u, loggedInUser))))))))"

text \<open>
  The \<open>catch\<close> block of login. \<open>client\<close> tells whether the handler still holds the
  client: then it sends \<open>ROLLBACK\<close>, ignoring a failure of that, and releases the client.
\<close>

definition login_catch :: "bool \<Rightarrow> response \<Rightarrow> error \<Rightarrow> world \<Rightarrow> response \<times> world" where
  "login_catch client res err w =
     (if client then
        (case client_rollback w of
           (_, w1) \<Rightarrow> internal_error res err (client_release w1))
      else internal_error res err w)"

text \<open>
  \<open>POST /auth/login\<close>. \<open>StringToNumber\<close> is the conversion used by \<open>Number()\<close>,
  \<open>randomUUID\<close> the identifier that \<open>randomUUID()\<close> returns in this call.
\<close>

definition login ::
  "(string \<Rightarrow> js_number) \<Rightarrow> string \<Rightarrow> request \<Rightarrow> world \<Rightarrow> response \<times> world" where
  "login StringToNumber randomUUID req w =
     (let user_id_in = req_body_user_id req in
      if \<not> truthy user_id_in \<or> \<not> Number_isInteger (ToNumber StringToNumber user_id_in) then
        send new_response 400 (ErrorJson ''user_id is required.'') w
      else
        (case ToNumber StringToNumber user_id_in of
           Integral userId \<Rightarrow>
             (case pool_connect w of
                (Inl err, w1) \<Rightarrow> login_catch False new_response err w1
              | (Inr _, w1) \<Rightarrow>
                  (case login_transaction randomUUID userId w1 of
                     (Inl err, w2) \<Rightarrow> login_catch True new_response err w2
                   | (Inr (Inl res), w2) \<Rightarrow> (res, client_release w2)
                   | (Inr (Inr (u, loggedInUser)), w2) \<Rightarrow>
                       (let w3 = client_release w2;
                            res = setSessionCookie new_response randomUUID
                        in case listUserPermissions (Number (Integral (user_id u))) w3 of
                             (Inl err, w4) \<Rightarrow> login_catch False res err w4
                           | (Inr permissions, w4) \<Rightarrow>
                               send res (res_status res)
                                 (UserJson (case loggedInUser of None \<Rightarrow> u | Some l \<Rightarrow> l)
                                    permissions)
                                 w4)))
         | _ \<Rightarrow> send new_response 400 (ErrorJson ''user_id is required.'') w))"


section \<open>The identity middleware (server.js)\<close>

definition AUTH_EXEMPT_PATHS :: "string list" where
  "AUTH_EXEMPT_PATHS = [''/auth/login'', ''/auth/logout'', ''/auth/users'', ''/health'']"

text \<open>\<open>pathname.replace(/\/+$/, '')\<close>\<close>

definition strip_trailing_slashes :: "string \<Rightarrow> string" where
  "strip_trailing_slashes s = rev (dropWhile (\<lambda>c. c = CHR ''/'') (rev s))"

definition endsWith :: "string \<Rightarrow> string \<Rightarrow> bool" where
  "endsWith s suffix =
     (length suffix \<le> length s \<and> drop (length s - length suffix) s = suffix)"

definition isAuthExemptPath :: "string \<Rightarrow> bool" where
  "isAuthExemptPath pathname =
     (if pathname = [] then False
      else
        let normalized = (if length pathname > 1 then strip_trailing_slashes pathname
                          else pathname)
        in if normalized \<in> set AUTH_EXEMPT_PATHS then True
           else list_ex (\<lambda>exempt.
                  length normalized > length exempt \<and>
                  endsWith normalized exempt \<and>
                  normalized ! (length normalized - length exempt - 1) = CHR ''/'')
                AUTH_EXEMPT_PATHS)"

text \<open>
  \<open>updateSessionActivity\<close> is started and not awaited. Its statement is sent when it is
  called; it changes \<open>last_seen_at\<close> only, a column that is not in the model; an error
  is logged and dropped.
\<close>

definition updateSessionActivity :: "string \<Rightarrow> world \<Rightarrow> world" where
  "updateSessionActivity sessionId w =
     snd (pool_query (TouchSession sessionId) (\<lambda>db. ((), db)) w)"

definition identity_middleware :: "request \<Rightarrow> world \<Rightarrow> (outcome \<times> request) \<times> world" where
  "identity_middleware req =
     (let unauthenticated =
            await (sending (clearSessionCookie new_response) 401 (ErrorJson ''Not authenticated''))
              (\<lambda>res. resolve (Sent res, req))
      in try_catch
           (if req_method req = ''OPTIONS'' \<or> isAuthExemptPath (req_path req)
            then resolve (Next, req)
            else
              await (of_result (extractSessionId req)) (\<lambda>sessionId.
                case sessionId of
                  None \<Rightarrow> unauthenticated
                | Some sid \<Rightarrow>
                    if sid = [] then unauthenticated
                    else
                      await (fetchUserBySession sid) (\<lambda>found.
                        case found of
                          None \<Rightarrow> unauthenticated
                        | Some u \<Rightarrow>
                            (\<lambda>w. (Inr (Next, req\<lparr>req_sessionId := Some sid, req_user := Some u\<rparr>),
                                  updateSessionActivity sid w)))))
           (\<lambda>err w. case internal_error new_response err w of
                       (res, w') \<Rightarrow> ((Sent res, req), w')))"

section \<open>The specification's notions\<close>

text \<open>
  The permission names reachable from a user's role through the role-permission
  association: the names \<open>n\<close> for which there are a user row with this id, an
  association row of that user's role, and a permission row of that association
  whose name is \<open>n\<close>.
\<close>

definition role_permissions_of :: "database \<Rightarrow> int \<Rightarrow> string set" where
  "role_permissions_of db userId =
     {n. \<exists>ua\<in>set (user_account db). \<exists>rp\<in>set (role_permission db). \<exists>p\<in>set (permission db).
           ua_user_id ua = userId \<and> ua_role_id ua = Some (rp_role_id rp) \<and>
           p_permission_id p = rp_permission_id rp \<and> p_permission p = Some n}"

definition forbidden :: response where
  "forbidden = \<lparr>res_status = 403, res_body = ErrorJson ''Forbidden'', res_cookie = None\<rparr>"

definition not_authenticated :: response where
  "not_authenticated =
     \<lparr>res_status = 401, res_body = ErrorJson ''Not authenticated'', res_cookie = None\<rparr>"


section \<open>Auxiliary notions\<close>

text \<open>
  What a committed login transaction writes: the status promotion with the login stamp,
  and the session row.
\<close>

definition committed_effect :: "string \<Rightarrow> int \<Rightarrow> database \<Rightarrow> database" where
  "committed_effect sessionId userId db =
     insert_session sessionId userId (update_user_login userId db)"

text \<open>A user row after the login update, and the role row that the lookup joins to it.\<close>

definition logged_in_row :: "database \<Rightarrow> user_account_row \<Rightarrow> user_account_row" where
  "logged_in_row db ua =
     ua\<lparr>ua_status := (if ua_status ua = Some ''pending'' then Some ''active'' else ua_status ua),
        ua_last_login_at := Some (db_now db)\<rparr>"

definition first_role :: "role_row list \<Rightarrow> user_account_row \<Rightarrow> role_row option" where
  "first_role roles ua =
     (case filter (\<lambda>r. ua_role_id ua = Some (r_role_id r)) roles of
        [] \<Rightarrow> None
      | r # _ \<Rightarrow> Some r)"



section \<open>Example data\<close>

text \<open>
  A small store: a pending user 3 and an inactive user 10 with role 2, a user 11 without
  a role whose status is written in capitals, a user 12 with a status the program does
  not know; role 2 holds two permissions whose names differ in case only; one session of
  user 3 and one session whose user is gone.
\<close>

definition pending_row :: user_account_row where
  "pending_row =
     \<lparr>ua_user_id = 3, ua_username = ''user@example.com'', ua_name = Some ''User'',
      ua_status = Some ''pending'', ua_role_id = Some 2, ua_last_login_at = None\<rparr>"

definition inactive_row :: user_account_row where
  "inactive_row =
     \<lparr>ua_user_id = 10, ua_username = ''inactive@example.com'', ua_name = Some ''Inactive User'',
      ua_status = Some ''inactive'', ua_role_id = Some 2, ua_last_login_at = None\<rparr>"

definition capitals_row :: user_account_row where
  "capitals_row =
     \<lparr>ua_user_id = 11, ua_username = ''upper@example.com'', ua_name = None,
      ua_status = Some ''ACTIVE'', ua_role_id = None, ua_last_login_at = None\<rparr>"

definition suspended_row :: user_account_row where
  "suspended_row =
     \<lparr>ua_user_id = 12, ua_username = ''suspended@example.com'', ua_name = None,
      ua_status = Some ''suspended'', ua_role_id = None, ua_last_login_at = None\<rparr>"

definition example_db :: database where
  "example_db =
     \<lparr>user_account = [pending_row, inactive_row, capitals_row, suspended_row],
      role_tbl =
        [\<lparr>r_role_id = 2, r_role_name = Some ''Admin'', r_default_route = Some ''/Dashboard''\<rparr>],
      role_permission =
        [\<lparr>rp_role_id = 2, rp_permission_id = 1\<rparr>, \<lparr>rp_role_id = 2, rp_permission_id = 2\<rparr>],
      permission =
        [\<lparr>p_permission_id = 1, p_permission = Some ''View Locations''\<rparr>,
         \<lparr>p_permission_id = 2, p_permission = Some ''view locations''\<rparr>,
         \<lparr>p_permission_id = 3, p_permission = Some ''manage users''\<rparr>],
      user_session =
        [\<lparr>s_session_id = ''session-value'', s_user_id = 3\<rparr>,
         \<lparr>s_session_id = ''orphan'', s_user_id = 99\<rparr>],
      db_now = 1000\<rparr>"

definition example_world :: world where
  "example_world = \<lparr>committed = example_db, tx = None, trace = [], ops = 0, faults = []\<rparr>"

text \<open>The same store when its first call throws, and when its fifth call throws.\<close>

definition failing_world :: world where
  "failing_world = example_world\<lparr>faults := [(0, Error ''Error'' ''connection terminated'')]\<rparr>"

definition failing_insert_world :: world where
  "failing_insert_world =
     example_world\<lparr>faults := [(4, Error ''error'' ''duplicate key value'')]\<rparr>"

definition example_user :: user where
  "example_user =
     \<lparr>user_id = 3, role_id = Some 2, role_name = Some ''Admin'', role = Some ''Admin'',
      app_role = Some ''Admin'', default_route = Some ''/Dashboard'',
      username = ''user@example.com'', name = Some ''User'', status = Some ''pending'',
      last_login_at = None\<rparr>"

text \<open>A request of user 3, as the identity middleware hands it to a gate.\<close>

definition example_request :: request where
  "example_request =
     \<lparr>req_method = ''GET'', req_path = ''/location'', req_cookie = None,
      req_body_user_id = Undefined, req_user = Some example_user, req_sessionId = None,
      req_userPermissions = None\<rparr>"

text \<open>A login request with the given \<open>user_id\<close> in its body.\<close>

definition login_request :: "js_value \<Rightarrow> request" where
  "login_request v =
     \<lparr>req_method = ''POST'', req_path = ''/auth/login'', req_cookie = None,
      req_body_user_id = v, req_user = None, req_sessionId = None,
      req_userPermissions = None\<rparr>"

text \<open>
  The example logins send a number as \<open>user_id\<close>, which \<open>Number()\<close> returns as it is;
  the conversion of strings is then not consulted. Where the examples need one, it reads
  no string as a number.
\<close>

definition nothing_numeric :: "string \<Rightarrow> js_number" where
  "nothing_numeric s = NaN"

text \<open>A request that carries the given \<open>Cookie\<close> header and no identity yet.\<close>

definition cookie_request :: "string \<Rightarrow> string \<Rightarrow> request" where
  "cookie_request path cookieHeader =
     \<lparr>req_method = ''POST'', req_path = path, req_cookie = Some cookieHeader,
      req_body_user_id = Undefined, req_user = None, req_sessionId = None,
      req_userPermissions = None\<rparr>"

text \<open>
  The example store with one more user, whose \<open>user_id\<close> is 0 and whose role is 2; a
  conversion of strings that reads \<open>"0"\<close> as the number 0, as \<open>Number()\<close> does, and
  no other string as a number; and a request of that user as the identity middleware
  hands it to a gate.
\<close>

definition zero_row :: user_account_row where
  "zero_row =
     \<lparr>ua_user_id = 0, ua_username = ''zero@example.com'', ua_name = Some ''Zero'',
      ua_status = Some ''pending'', ua_role_id = Some 2, ua_last_login_at = None\<rparr>"

definition zero_world :: world where
  "zero_world =
     example_world\<lparr>committed := example_db\<lparr>user_account := [zero_row, pending_row]\<rparr>\<rparr>"

definition zero_numeric :: "string \<Rightarrow> js_number" where
  "zero_numeric s = (if s = ''0'' then Integral 0 else NaN)"

definition zero_request :: request where
  "zero_request =
     \<lparr>req_method = ''GET'', req_path = ''/location'', req_cookie = None,
      req_body_user_id = Undefined,
      req_user = Some (example_user\<lparr>user_id := 0, username := ''zero@example.com'',
                                    name := Some ''Zero''\<rparr>),
      req_sessionId = None, req_userPermissions = None\<rparr>"

section \<open>Properties of permission resolution\<close>

lemmas example_defs =
  example_world_def example_db_def pending_row_def inactive_row_def capitals_row_def
  suspended_row_def

lemma set_new_Set: "set (new_Set xs) = set xs"
  by (simp add: new_Set_def)

lemma distinct_new_Set: "distinct (new_Set xs)"
  by (simp add: new_Set_def)

lemma toLowerCase_Nil: "toLowerCase s = [] \<longleftrightarrow> s = []"
  by (simp add: toLowerCase_def)

lemma left_join_row:
  "set (case filter P bs of [] \<Rightarrow> [(a, None)] | ms \<Rightarrow> map (\<lambda>b. (a, Some b)) ms) =
     (if \<forall>b\<in>set bs. \<not> P b then {(a, None)} else {(a, Some b) | b. b \<in> set bs \<and> P b})"
proof (cases "filter P bs")
  case Nil
  then show ?thesis by (simp add: filter_empty_conv)
next
  case (Cons m ms)
  then have some: "\<not> (\<forall>b\<in>set bs. \<not> P b)"
    by (metis filter_empty_conv list.distinct(1))
  have "set (map (\<lambda>b. (a, Some b)) (filter P bs)) = {(a, Some b) | b. b \<in> set bs \<and> P b}"
    by auto
  with Cons have "set (case filter P bs of [] \<Rightarrow> [(a, None)] | ms \<Rightarrow> map (\<lambda>b. (a, Some b)) ms)
        = {(a, Some b) | b. b \<in> set bs \<and> P b}"
    by simp
  with some show ?thesis by presburger
qed

lemma left_join_Some:
  "(a, Some b) \<in> set (left_join as bs on) \<longleftrightarrow> a \<in> set as \<and> b \<in> set bs \<and> on a b"
  unfolding left_join_def by (auto simp: left_join_row split: if_splits)

lemma left_join_None:
  "(a, None) \<in> set (left_join as bs on) \<longleftrightarrow> a \<in> set as \<and> (\<forall>b\<in>set bs. \<not> on a b)"
  unfolding left_join_def by (auto simp: left_join_row split: if_splits)

text \<open>The statement selects exactly the names reachable through the role, each once.\<close>

lemma set_select_user_permissions:
  "set (select_user_permissions userId db) = role_permissions_of db userId"
proof (intro set_eqI iffI)
  fix n
  assume "n \<in> set (select_user_permissions userId db)"
  then obtain ua rpo p where
    row: "((ua, rpo), Some p) \<in> set (left_join (left_join (user_account db) (role_permission db)
             (\<lambda>ua rp. ua_role_id ua = Some (rp_role_id rp))) (permission db)
             (\<lambda>(ua, rpo) p. case rpo of None \<Rightarrow> False
                             | Some rp \<Rightarrow> p_permission_id p = rp_permission_id rp))"
    and sel: "ua_user_id ua = userId" "p_permission p = Some n"
    by (auto simp: select_user_permissions_def Let_def split: option.splits)
  from row obtain rp where "rpo = Some rp" "p_permission_id p = rp_permission_id rp"
      "p \<in> set (permission db)"
      "(ua, Some rp) \<in> set (left_join (user_account db) (role_permission db)
             (\<lambda>ua rp. ua_role_id ua = Some (rp_role_id rp)))"
    by (auto simp: left_join_Some split: option.splits)
  with sel show "n \<in> role_permissions_of db userId"
    by (auto simp: left_join_Some role_permissions_of_def)
next
  fix n
  assume "n \<in> role_permissions_of db userId"
  then obtain ua rp p where m: "ua \<in> set (user_account db)" "rp \<in> set (role_permission db)"
     "p \<in> set (permission db)" "ua_user_id ua = userId" "ua_role_id ua = Some (rp_role_id rp)"
     "p_permission_id p = rp_permission_id rp" "p_permission p = Some n"
    by (auto simp: role_permissions_of_def)
  then have "((ua, Some rp), Some p) \<in> set (left_join (left_join (user_account db) (role_permission db)
             (\<lambda>ua rp. ua_role_id ua = Some (rp_role_id rp))) (permission db)
             (\<lambda>(ua, rpo) p. case rpo of None \<Rightarrow> False
                             | Some rp \<Rightarrow> p_permission_id p = rp_permission_id rp))"
    by (simp add: left_join_Some)
  with m show "n \<in> set (select_user_permissions userId db)"
    by (force simp: select_user_permissions_def Let_def)
qed

lemma role_permissions_of_no_role:
  "\<forall>ua\<in>set (user_account db). ua_user_id ua = userId \<longrightarrow> ua_role_id ua = None \<Longrightarrow>
   role_permissions_of db userId = {}"
  by (auto simp: role_permissions_of_def)

lemma queryUserPermissions_ok:
  "map_of (faults w) (ops w) = None \<Longrightarrow>
   queryUserPermissions userId w =
     (Inr (map toLowerCase (select_user_permissions userId (committed w))),
      w\<lparr>trace := trace w @ [PoolQuery (SelectUserPermissions userId)], ops := Suc (ops w)\<rparr>)"
  by (simp add: queryUserPermissions_def await_def pool_query_def store_call_def resolve_def)


lemma listUserPermissions_ok:
  assumes "map_of (faults w) (ops w) = None" and "userId \<noteq> 0"
  shows "listUserPermissions (Number (Integral userId)) w =
     (Inr (new_Set (map toLowerCase (select_user_permissions userId (committed w)))),
      w\<lparr>trace := trace w @ [PoolQuery (SelectUserPermissions userId)], ops := Suc (ops w)\<rparr>)"
  using assms by (simp add: listUserPermissions_def await_def queryUserPermissions_ok resolve_def)

lemma getUserPermissions_ok:
  assumes "map_of (faults w) (ops w) = None" and "req_user req = Some u"
    and "req_userPermissions req = None"
  shows "getUserPermissions req w =
     (Inr (new_Set (map toLowerCase (select_user_permissions (user_id u) (committed w))),
           req\<lparr>req_userPermissions :=
                 Some (new_Set (map toLowerCase (select_user_permissions (user_id u) (committed w))))\<rparr>),
      w\<lparr>trace := trace w @ [PoolQuery (SelectUserPermissions (user_id u))], ops := Suc (ops w)\<rparr>)"
  using assms
  by (simp add: getUserPermissions_def await_def queryUserPermissions_ok resolve_def Let_def)

lemma example_select:
  "select_user_permissions 3 example_db = [''View Locations'', ''view locations'']"
  by (simp add: select_user_permissions_def example_defs left_join_def)

lemma example_role_permissions:
  "role_permissions_of example_db 3 = {''View Locations'', ''view locations''}"
  using set_select_user_permissions [of 3 example_db] by (simp add: example_select)

lemma example_getUserPermissions:
  "req_user rq = Some example_user \<Longrightarrow> req_userPermissions rq = None \<Longrightarrow>
   getUserPermissions rq example_world =
     (Inr ([''view locations''], rq\<lparr>req_userPermissions := Some [''view locations'']\<rparr>),
      example_world\<lparr>trace := [PoolQuery (SelectUserPermissions 3)], ops := 1\<rparr>)"
  by (simp add: getUserPermissions_ok example_user_def example_world_def example_select
      toLowerCase_def toLowerChar_def new_Set_def)

text \<open>
  C1. A gate built from a pair of permission names \<open>read\<close> and \<open>manage\<close>, which it
  lowers at construction. An OPTIONS request passes, whatever else holds. Any other request
  without a user is answered 401. For a request with a user whose permission Set resolves
  to \<open>permissions\<close>: GET and HEAD pass exactly when the Set holds the lowered \<open>read\<close>
  name or the lowered \<open>manage\<close> name; every other method passes exactly when the Set
  holds the lowered \<open>manage\<close> name; all that does not pass is answered 403 Forbidden.
\<close>

theorem requirePermissions_decision:
  assumes "read \<noteq> []" and "manage \<noteq> []"
  shows
   "(req_method req = ''OPTIONS'' \<longrightarrow>
        requirePermissions (Some read) (Some manage) req w = ((Next, req), w)) \<and>
    (req_method req \<noteq> ''OPTIONS'' \<and> req_user req = None \<longrightarrow>
        requirePermissions (Some read) (Some manage) req w =
          ((Sent not_authenticated, req), w\<lparr>trace := trace w @ [Respond 401]\<rparr>)) \<and>
    (req_user req \<noteq> None \<and> getUserPermissions req w = (Inr (permissions, req'), w') \<longrightarrow>
       (req_method req \<in> {''GET'', ''HEAD''} \<longrightarrow>
          fst (fst (requirePermissions (Some read) (Some manage) req w)) =
            (if toLowerCase read \<in> set permissions \<or> toLowerCase manage \<in> set permissions
             then Next else Sent forbidden)) \<and>
       (req_method req \<notin> {''OPTIONS'', ''GET'', ''HEAD''} \<longrightarrow>
          fst (fst (requirePermissions (Some read) (Some manage) req w)) =
            (if toLowerCase manage \<in> set permissions then Next else Sent forbidden)))"
  using assms
  by (auto simp: requirePermissions_def Let_def try_catch_def resolve_def await_def send_def
      required_def hasPermission_def Set_has_def READ_METHODS_def toLowerCase_Nil forbidden_def
      not_authenticated_def new_response_def)

theorem requirePermissions_decision_witness:
  "''View Locations'' \<noteq> [] \<and> ''manage locations'' \<noteq> [] \<and>
   requirePermissions (Some ''View Locations'') (Some ''manage locations'')
       (example_request\<lparr>req_method := ''OPTIONS'', req_user := None\<rparr>) failing_world =
     ((Next, example_request\<lparr>req_method := ''OPTIONS'', req_user := None\<rparr>), failing_world) \<and>
   requirePermissions (Some ''View Locations'') (Some ''manage locations'')
       (example_request\<lparr>req_user := None\<rparr>) example_world =
     ((Sent not_authenticated, example_request\<lparr>req_user := None\<rparr>),
      example_world\<lparr>trace := [Respond 401]\<rparr>) \<and>
   getUserPermissions example_request example_world =
     (Inr ([''view locations''], example_request\<lparr>req_userPermissions := Some [''view locations'']\<rparr>),
      example_world\<lparr>trace := [PoolQuery (SelectUserPermissions 3)], ops := 1\<rparr>) \<and>
   fst (fst (requirePermissions (Some ''View Locations'') (Some ''manage locations'')
               example_request example_world)) = Next \<and>
   fst (fst (requirePermissions (Some ''View Locations'') (Some ''manage locations'')
               (example_request\<lparr>req_method := ''POST''\<rparr>) example_world)) = Sent forbidden"
proof -
  have r: "''View Locations'' \<noteq> []" and m: "''manage locations'' \<noteq> []"
    by simp_all
  have g: "getUserPermissions example_request example_world =
     (Inr ([''view locations''], example_request\<lparr>req_userPermissions := Some [''view locations'']\<rparr>),
      example_world\<lparr>trace := [PoolQuery (SelectUserPermissions 3)], ops := 1\<rparr>)"
    by (rule example_getUserPermissions) (simp_all add: example_request_def)
  have p: "getUserPermissions (example_request\<lparr>req_method := ''POST''\<rparr>) example_world =
     (Inr ([''view locations''],
           example_request\<lparr>req_method := ''POST'', req_userPermissions := Some [''view locations'']\<rparr>),
      example_world\<lparr>trace := [PoolQuery (SelectUserPermissions 3)], ops := 1\<rparr>)"
    by (rule example_getUserPermissions) (simp_all add: example_request_def)
  have l: "toLowerCase ''View Locations'' = ''view locations''"
          "toLowerCase ''manage locations'' = ''manage locations''"
    by (simp_all add: toLowerCase_def toLowerChar_def)
  show ?thesis
    using requirePermissions_decision [OF r m,
            of "example_request\<lparr>req_method := ''OPTIONS'', req_user := None\<rparr>" failing_world]
          requirePermissions_decision [OF r m, of "example_request\<lparr>req_user := None\<rparr>" example_world]
          requirePermissions_decision [OF r m, of example_request example_world
            "[''view locations'']" _ _]
          requirePermissions_decision [OF r m, of "example_request\<lparr>req_method := ''POST''\<rparr>"
            example_world "[''view locations'']" _ _]
          g p l
    by (simp add: example_request_def example_world_def)
qed



lemma zero_select:
  "select_user_permissions 0 (committed zero_world) = [''View Locations'', ''view locations'']"
  by (simp add: select_user_permissions_def zero_world_def zero_row_def example_defs left_join_def)

lemma zero_role_permissions:
  "toLowerCase ` role_permissions_of (committed zero_world) 0 = {''view locations''}"
  by (simp add: set_select_user_permissions [symmetric] zero_select toLowerCase_def
      toLowerChar_def)

text \<open>
  C6, as the code has it. When the query does not throw, the Set that
  \<open>getUserPermissions\<close> resolves for the user of a request holds exactly the names
  reachable from the user's role through the role-permission association, in lower case,
  each once, for every user. \<open>listUserPermissions\<close> returns the same names for every
  user id other than 0; for the user id 0, which is falsy, it returns the empty array
  without asking the store. For a user without a role both results are empty.
\<close>

theorem resolved_permissions:
  assumes "map_of (faults w) (ops w) = None"
  shows
   "(req_user req = Some u \<and> req_userPermissions req = None \<longrightarrow>
       (\<exists>s req' w'. getUserPermissions req w = (Inr (s, req'), w') \<and>
                distinct s \<and>
                set s = toLowerCase ` role_permissions_of (committed w) (user_id u))) \<and>
    (userId \<noteq> 0 \<longrightarrow>
       (\<exists>ps w'. listUserPermissions (Number (Integral userId)) w = (Inr ps, w') \<and>
                distinct ps \<and>
                set ps = toLowerCase ` role_permissions_of (committed w) userId)) \<and>
    listUserPermissions (Number (Integral 0)) w = (Inr [], w) \<and>
    ((\<forall>ua\<in>set (user_account (committed w)). ua_user_id ua = userId \<longrightarrow> ua_role_id ua = None) \<longrightarrow>
       fst (listUserPermissions (Number (Integral userId)) w) = Inr [] \<and>
       (req_user req = Some u \<and> req_userPermissions req = None \<and> user_id u = userId \<longrightarrow>
          fst (getUserPermissions req w) = Inr ([], req\<lparr>req_userPermissions := Some []\<rparr>)))"
proof -
  have g: "\<exists>s req' w'. getUserPermissions req w = (Inr (s, req'), w') \<and>
      distinct s \<and> set s = toLowerCase ` role_permissions_of (committed w) (user_id u)"
    if "req_user req = Some u \<and> req_userPermissions req = None"
    using that assms
    by (simp add: getUserPermissions_ok set_new_Set distinct_new_Set set_select_user_permissions)
  have l: "\<exists>ps w'. listUserPermissions (Number (Integral userId)) w = (Inr ps, w') \<and>
      distinct ps \<and> set ps = toLowerCase ` role_permissions_of (committed w) userId"
    if "userId \<noteq> 0"
    using that assms
    by (simp add: listUserPermissions_ok set_new_Set distinct_new_Set set_select_user_permissions)
  have z: "listUserPermissions (Number (Integral 0)) w = (Inr [], w)"
    by (simp add: listUserPermissions_def resolve_def)
  have n: "fst (listUserPermissions (Number (Integral userId)) w) = Inr [] \<and>
       (req_user req = Some u \<and> req_userPermissions req = None \<and> user_id u = userId \<longrightarrow>
          fst (getUserPermissions req w) = Inr ([], req\<lparr>req_userPermissions := Some []\<rparr>))"
    if norole: "\<forall>ua\<in>set (user_account (committed w)). ua_user_id ua = userId \<longrightarrow> ua_role_id ua = None"
  proof -
    have "set (select_user_permissions userId (committed w)) = {}"
      using norole by (simp add: set_select_user_permissions role_permissions_of_no_role)
    then have e: "select_user_permissions userId (committed w) = []" by simp
    have "fst (listUserPermissions (Number (Integral userId)) w) = Inr []"
    proof (cases "userId = 0")
      case True
      then show ?thesis by (simp add: z)
    next
      case False
      with e assms show ?thesis by (simp add: listUserPermissions_ok new_Set_def)
    qed
    moreover have "fst (getUserPermissions req w) = Inr ([], req\<lparr>req_userPermissions := Some []\<rparr>)"
      if "req_user req = Some u \<and> req_userPermissions req = None \<and> user_id u = userId"
      using that e assms by (simp add: getUserPermissions_ok new_Set_def)
    ultimately show ?thesis by blast
  qed
  from g l z n show ?thesis by blast
qed

theorem resolved_permissions_witness:
  "map_of (faults example_world) (ops example_world) = None \<and> (3::int) \<noteq> 0 \<and>
   req_user example_request = Some example_user \<and> req_userPermissions example_request = None \<and>
   (\<exists>s req' w'. getUserPermissions example_request example_world = (Inr (s, req'), w') \<and>
            distinct s \<and> set s = {''view locations''}) \<and>
   (\<exists>ps w'. listUserPermissions (Number (Integral 3)) example_world = (Inr ps, w') \<and>
            distinct ps \<and> set ps = {''view locations''}) \<and>
   listUserPermissions (Number (Integral 0)) example_world = (Inr [], example_world) \<and>
   filter (\<lambda>ua. ua_user_id ua = 11 \<and> ua_role_id ua \<noteq> None)
     (user_account (committed example_world)) = [] \<and>
   fst (listUserPermissions (Number (Integral 11)) example_world) = Inr []"
proof -
  have nf: "map_of (faults example_world) (ops example_world) = None"
    by (simp add: example_world_def)
  have norole: "\<forall>ua\<in>set (user_account (committed example_world)).
       ua_user_id ua = 11 \<longrightarrow> ua_role_id ua = None"
    by (simp add: example_defs)
  have r: "toLowerCase ` role_permissions_of (committed example_world) 3 = {''view locations''}"
    by (simp add: example_world_def example_role_permissions toLowerCase_def toLowerChar_def)
  have u: "req_user example_request = Some example_user \<and> req_userPermissions example_request = None"
       "user_id example_user = 3"
    by (simp_all add: example_request_def example_user_def)
  show ?thesis
    using resolved_permissions [OF nf, of example_request example_user 3]
          resolved_permissions [OF nf, of example_request example_user 11] nf norole r u
    by (simp add: filter_empty_conv)
qed

text \<open>
  C10. For a falsy \<open>userId\<close> (\<open>undefined\<close>, \<open>null\<close>, 0, the empty string, and also
  \<open>NaN\<close> and \<open>false\<close>) \<open>listUserPermissions\<close> returns the empty array and leaves the
  world as it was: no store call is made.
\<close>

theorem listUserPermissions_falsy:
  "\<not> truthy userId \<Longrightarrow> listUserPermissions userId w = (Inr [], w)"
  by (simp add: listUserPermissions_def resolve_def)

theorem listUserPermissions_falsy_witness:
  "\<not> truthy Undefined \<and> listUserPermissions Undefined failing_world = (Inr [], failing_world) \<and>
   \<not> truthy Null \<and> listUserPermissions Null failing_world = (Inr [], failing_world) \<and>
   \<not> truthy (Number (Integral 0)) \<and>
     listUserPermissions (Number (Integral 0)) failing_world = (Inr [], failing_world) \<and>
   \<not> truthy (String []) \<and>
     listUserPermissions (String []) failing_world = (Inr [], failing_world)"
  using listUserPermissions_falsy [of Undefined failing_world]
        listUserPermissions_falsy [of Null failing_world]
        listUserPermissions_falsy [of "Number (Integral 0)" failing_world]
        listUserPermissions_falsy [of "String []" failing_world]
  by simp

section \<open>Properties of login\<close>

lemma select_user_for_login_id:
  "select_user_for_login userId db = row # rows \<Longrightarrow> user_id (normalizeUserRow row) = userId"
proof -
  assume a: "select_user_for_login userId db = row # rows"
  then have "row \<in> set (select_user_for_login userId db)" by simp
  then have "row \<in> set (filter (\<lambda>(ua, ro). ua_user_id ua = userId)
               (left_join (user_account db) (role_tbl db)
                  (\<lambda>ua r. ua_role_id ua = Some (r_role_id r))))"
    unfolding select_user_for_login_def by (rule in_set_takeD)
  then show ?thesis by (auto simp: normalizeUserRow_def Let_def)
qed

lemma login_transaction_outcome:
  assumes "tx w = None"
  shows "(case login_transaction sessionId userId w of (r, w2) \<Rightarrow>
    faults w2 = faults w \<and>
    (case r of
       Inl e \<Rightarrow>
         committed w2 = committed w \<and>
         (\<exists>evs. trace w2 = trace w @ evs \<and> ops w2 = ops w + length evs \<and>
                set evs \<subseteq> range ClientQuery)
     | Inr (Inl res) \<Rightarrow>
         committed w2 = committed w \<and> tx w2 = None \<and> res_cookie res = None \<and>
         res_status res \<in> {404, 403} \<and>
         trace w2 = trace w @ [ClientQuery BEGIN, ClientQuery (SelectUserForLogin userId),
                               ClientQuery ROLLBACK, Respond (res_status res)] \<and>
         ops w2 = ops w + 3
     | Inr (Inr (u, l)) \<Rightarrow>
         user_id u = userId \<and>
         committed w2 = committed_effect sessionId userId (committed w) \<and> tx w2 = None \<and>
         trace w2 = trace w @ [ClientQuery BEGIN, ClientQuery (SelectUserForLogin userId),
                               ClientQuery (UpdateUserLogin userId),
                               ClientQuery (InsertSession sessionId userId),
                               ClientQuery (SelectUserForLogin userId), ClientQuery COMMIT] \<and>
         ops w2 = ops w + 6))"
  using assms
  apply (simp add: login_transaction_def await_def client_begin_def store_call_def
        fetchUserForLogin_def client_query_def client_rollback_def client_commit_def
        sending_def send_def resolve_def Let_def new_response_def committed_effect_def
      split: option.split list.split)
  apply (auto dest: select_user_for_login_id)
  done

lemma login_catch_outcome:
  "(case login_catch client res err w of (res', w') \<Rightarrow>
      res' = res\<lparr>res_status := 500,
                 res_body := ErrorJson (''Internal server error, '' @ message_or_err err)\<rparr> \<and>
      faults w' = faults w \<and> committed w' = committed w \<and>
      trace w' = trace w @ (if client then [ClientQuery ROLLBACK, ClientRelease, Respond 500]
                            else [Respond 500]))"
  by (simp add: login_catch_def client_rollback_def store_call_def internal_error_def send_def
      client_release_def Let_def split: option.split)

lemma listUserPermissions_outcome:
  "(case listUserPermissions userId w of (r, w') \<Rightarrow>
      faults w' = faults w \<and> committed w' = committed w \<and> tx w' = tx w \<and>
      (\<exists>evs. trace w' = trace w @ evs \<and> set evs \<subseteq> range PoolQuery))"
  by (simp add: listUserPermissions_def queryUserPermissions_def await_def pool_query_def
      store_call_def resolve_def throw_def Let_def
      split: option.split js_value.split js_number.split)

lemma count_list_ClientQuery:
  "set evs \<subseteq> range ClientQuery \<Longrightarrow> count_list evs ClientRelease = 0"
  by (auto simp: count_list_0_iff)

lemma count_list_PoolQuery:
  "set evs \<subseteq> range PoolQuery \<Longrightarrow> count_list evs ClientRelease = 0"
  by (auto simp: count_list_0_iff)

lemma filter_left_join:
  "filter (\<lambda>(a, bo). P a) (left_join as bs on) = left_join (filter P as) bs on"
  by (induction as) (auto simp: left_join_def split: list.splits)

lemma take1_left_join:
  "take (Suc 0) (left_join (a # as) bs on) =
     [(a, case filter (on a) bs of [] \<Rightarrow> None | b # _ \<Rightarrow> Some b)]"
  by (simp add: left_join_def split: list.split)

lemma find_filter: "find P xs = Some x \<Longrightarrow> \<exists>rest. filter P xs = x # rest"
  by (induction xs) (auto split: if_splits)

lemma find_None_filter: "find P xs = None \<Longrightarrow> filter P xs = []"
  by (induction xs) (auto split: if_splits)

lemma select_user_for_login_find:
  "select_user_for_login userId db =
     (case find (\<lambda>ua. ua_user_id ua = userId) (user_account db) of
        None \<Rightarrow> []
      | Some ua \<Rightarrow> [(ua, first_role (role_tbl db) ua)])"
proof (cases "find (\<lambda>ua. ua_user_id ua = userId) (user_account db)")
  case None
  then have "select_user_for_login userId db = take 1 (left_join [] (role_tbl db)
                  (\<lambda>ua r. ua_role_id ua = Some (r_role_id r)))"
    by (simp add: select_user_for_login_def filter_left_join find_None_filter)
  with None show ?thesis by (simp add: left_join_def)
next
  case (Some ua)
  then obtain rest where "filter (\<lambda>ua. ua_user_id ua = userId) (user_account db) = ua # rest"
    by (blast dest: find_filter)
  with Some show ?thesis
    by (simp add: select_user_for_login_def filter_left_join take1_left_join first_role_def)
qed

lemma find_unknown:
  "\<forall>ua\<in>set (user_account db). ua_user_id ua \<noteq> userId \<Longrightarrow>
   find (\<lambda>ua. ua_user_id ua = userId) (user_account db) = None"
  by (simp add: find_None_iff)

lemma committed_effect_neq: "committed_effect sessionId userId db \<noteq> db"
proof
  assume "committed_effect sessionId userId db = db"
  then have "length (user_session (committed_effect sessionId userId db)) = length (user_session db)"
    by simp
  then show False
    by (simp add: committed_effect_def insert_session_def update_user_login_def)
qed

lemma login_valid:
  assumes "truthy (req_body_user_id req)"
    and "ToNumber StringToNumber (req_body_user_id req) = Integral userId"
  shows "login StringToNumber randomUUID req w =
     (case pool_connect w of
        (Inl err, w1) \<Rightarrow> login_catch False new_response err w1
      | (Inr _, w1) \<Rightarrow>
          (case login_transaction randomUUID userId w1 of
             (Inl err, w2) \<Rightarrow> login_catch True new_response err w2
           | (Inr (Inl res), w2) \<Rightarrow> (res, client_release w2)
           | (Inr (Inr (u, loggedInUser)), w2) \<Rightarrow>
               (let w3 = client_release w2;
                    res = setSessionCookie new_response randomUUID
                in case listUserPermissions (Number (Integral (user_id u))) w3 of
                     (Inl err, w4) \<Rightarrow> login_catch False res err w4
                   | (Inr permissions, w4) \<Rightarrow>
                       send res (res_status res)
                         (UserJson (case loggedInUser of None \<Rightarrow> u | Some l \<Rightarrow> l)
                            permissions)
                         w4)))"
  using assms by (simp add: login_def)

lemma login_paths:
  assumes "truthy (req_body_user_id req)"
    and "ToNumber StringToNumber (req_body_user_id req) = Integral userId"
    and "tx w = None"
    and "map_of (faults w) (ops w) = None"
  shows "(case login StringToNumber randomUUID req w of (res, w') \<Rightarrow>
     \<exists>evs. trace w' = trace w @ evs \<and>
       (committed w' = committed w \<or>
        committed w' = committed_effect randomUUID userId (committed w)) \<and>
       count_list evs ClientRelease = 1 \<and>
       ((\<exists>err. fst (login_transaction randomUUID userId
                      (w\<lparr>trace := trace w @ [PoolConnect], ops := Suc (ops w)\<rparr>)) = Inl err) \<longrightarrow>
          res_status res = 500 \<and> committed w' = committed w \<and>
          (\<exists>pre. evs = pre @ [ClientQuery ROLLBACK, ClientRelease, Respond 500])) \<and>
       (res_status res \<noteq> 500 \<and> res_status res \<noteq> 200 \<longrightarrow>
          res_status res \<in> {404, 403} \<and> committed w' = committed w \<and>
          evs = [PoolConnect, ClientQuery BEGIN, ClientQuery (SelectUserForLogin userId),
                 ClientQuery ROLLBACK, Respond (res_status res), ClientRelease]) \<and>
       (res_status res = 200 \<longrightarrow>
          committed w' = committed_effect randomUUID userId (committed w)))"
proof -
  define w1 where "w1 = w\<lparr>trace := trace w @ [PoolConnect], ops := Suc (ops w)\<rparr>"
  have c: "pool_connect w = (Inr (), w1)"
    using assms(4) by (simp add: pool_connect_def store_call_def w1_def)
  have t: "tx w1 = None" using assms(3) by (simp add: w1_def)
  obtain r w2 where lt: "login_transaction randomUUID userId w1 = (r, w2)"
    by (cases "login_transaction randomUUID userId w1")
  note o = login_transaction_outcome [OF t, where sessionId = randomUUID and userId = userId, unfolded lt, simplified]
  show ?thesis
  proof (cases r)
    case (Inl err)
    with o obtain tevs where tevs: "trace w2 = trace w1 @ tevs" "set tevs \<subseteq> range ClientQuery"
       and cm: "committed w2 = committed w1" by auto
    from login_catch_outcome [where client = True and res = new_response and err = err and w = w2] tevs cm Inl lt c
    show ?thesis
      unfolding login_valid [OF assms(1,2)] w1_def [symmetric]
      apply (simp add: w1_def new_response_def count_list_ClientQuery split: prod.splits)
      done
  next
    case (Inr b)
    show ?thesis
    proof (cases b)
      case (Inl res)
      with o Inr lt c show ?thesis
        unfolding login_valid [OF assms(1,2)] w1_def [symmetric]
        by (auto simp: w1_def client_release_def)
    next
      case (Inr ul)
      obtain u l where ul: "ul = (u, l)" by (cases ul)
      define w3 where "w3 = client_release w2"
      obtain pr w4 where lp: "listUserPermissions (Number (Integral (user_id u))) w3 = (pr, w4)"
        by (cases "listUserPermissions (Number (Integral (user_id u))) w3")
      from listUserPermissions_outcome [where userId = "Number (Integral (user_id u))" and w = w3,
          unfolded lp, simplified]
      obtain pevs where p: "faults w4 = faults w3" "committed w4 = committed w3"
          "trace w4 = trace w3 @ pevs" "set pevs \<subseteq> range PoolQuery"
        by auto
      show ?thesis
      proof (cases pr)
        case (Inl err)
        with login_catch_outcome [where client = False and err = err and w = w4
            and res = "setSessionCookie new_response randomUUID"]
          o \<open>r = Inr b\<close> \<open>b = Inr ul\<close> ul lt c lp p
        show ?thesis
          unfolding login_valid [OF assms(1,2)] w1_def [symmetric] w3_def [symmetric]
          by (auto simp: w1_def w3_def client_release_def count_list_PoolQuery Let_def
              committed_effect_neq)
      next
        case (Inr permissions)
        with o \<open>r = Inr b\<close> \<open>b = Inr ul\<close> ul lt c lp p
        show ?thesis
          unfolding login_valid [OF assms(1,2)] w1_def [symmetric]
          by (auto simp: w1_def w3_def client_release_def count_list_PoolQuery Let_def
              send_def setSessionCookie_def new_response_def)
      qed
    qed
  qed
qed

lemma find_map_id:
  "(\<And>x. P (f x) = P x) \<Longrightarrow> find P (map f xs) = map_option f (find P xs)"
  by (induction xs) auto

lemma find_Some_holds: "find P xs = Some x \<Longrightarrow> P x"
  by (induction xs) (auto split: if_splits)

lemma find_after_login:
  "find (\<lambda>ua. ua_user_id ua = userId) (user_account (committed_effect sessionId userId db)) =
     map_option (logged_in_row db) (find (\<lambda>ua. ua_user_id ua = userId) (user_account db))"
proof -
  have "user_account (committed_effect sessionId userId db) =
      map (\<lambda>ua. if ua_user_id ua = userId then logged_in_row db ua else ua) (user_account db)"
    by (simp add: committed_effect_def insert_session_def update_user_login_def logged_in_row_def)
  moreover have "find (\<lambda>ua. ua_user_id ua = userId)
        (map (\<lambda>ua. if ua_user_id ua = userId then logged_in_row db ua else ua) (user_account db)) =
      map_option (\<lambda>ua. if ua_user_id ua = userId then logged_in_row db ua else ua)
        (find (\<lambda>ua. ua_user_id ua = userId) (user_account db))"
    by (rule find_map_id) (simp add: logged_in_row_def)
  ultimately show ?thesis
    by (cases "find (\<lambda>ua. ua_user_id ua = userId) (user_account db)")
       (auto dest: find_Some_holds)
qed

lemma role_tbl_after_login:
  "role_tbl (committed_effect sessionId userId db) = role_tbl db"
  by (simp add: committed_effect_def insert_session_def update_user_login_def)

lemma first_role_logged_in: "first_role roles (logged_in_row db ua) = first_role roles ua"
  by (simp add: first_role_def logged_in_row_def)

lemma login_transaction_commits:
  assumes "tx w = None" and "faults w = []"
    and "find (\<lambda>ua. ua_user_id ua = userId) (user_account (committed w)) = Some ua"
    and "toLowerCase (trim (case ua_status ua of None \<Rightarrow> [] | Some s \<Rightarrow> s)) \<in> set USER_STATUSES"
    and "toLowerCase (trim (case ua_status ua of None \<Rightarrow> [] | Some s \<Rightarrow> s)) \<noteq> ''inactive''"
  shows "login_transaction sessionId userId w =
     (Inr (Inr (normalizeUserRow (ua, first_role (role_tbl (committed w)) ua),
                Some (normalizeUserRow (logged_in_row (committed w) ua,
                                        first_role (role_tbl (committed w)) ua)))),
      w\<lparr>trace := trace w @
           [ClientQuery BEGIN, ClientQuery (SelectUserForLogin userId),
            ClientQuery (UpdateUserLogin userId), ClientQuery (InsertSession sessionId userId),
            ClientQuery (SelectUserForLogin userId), ClientQuery COMMIT],
         ops := ops w + 6,
         committed := committed_effect sessionId userId (committed w)\<rparr>)"
proof -
  have id: "ua_user_id ua = userId"
    using assms(3) by (auto dest: find_Some_holds)
  have s2: "select_user_for_login userId
        (insert_session sessionId userId (update_user_login userId (committed w))) =
      [(logged_in_row (committed w) ua, first_role (role_tbl (committed w)) ua)]"
    using assms(3) find_after_login [of userId sessionId "committed w"]
      role_tbl_after_login [of sessionId userId "committed w"]
    by (simp add: select_user_for_login_find committed_effect_def first_role_logged_in)
  show ?thesis
    using assms id s2
    by (simp add: login_transaction_def await_def client_begin_def store_call_def
        fetchUserForLogin_def client_query_def client_commit_def resolve_def Let_def
        select_user_for_login_find normalizeUserRow_def committed_effect_def)
qed

lemma pool_connect_ok:
  "map_of (faults w) (ops w) = None \<Longrightarrow>
   pool_connect w = (Inr (), w\<lparr>trace := trace w @ [PoolConnect], ops := Suc (ops w)\<rparr>)"
  by (simp add: pool_connect_def store_call_def)

lemma login_transaction_not_found:
  assumes "tx w = None" and "faults w = []"
    and "find (\<lambda>ua. ua_user_id ua = userId) (user_account (committed w)) = None"
  shows "login_transaction sessionId userId w =
     (Inr (Inl \<lparr>res_status = 404, res_body = ErrorJson ''User not found'', res_cookie = None\<rparr>),
      w\<lparr>trace := trace w @ [ClientQuery BEGIN, ClientQuery (SelectUserForLogin userId),
                             ClientQuery ROLLBACK, Respond 404],
         ops := ops w + 3\<rparr>)"
  using assms
  by (simp add: login_transaction_def await_def client_begin_def store_call_def
        fetchUserForLogin_def client_query_def client_rollback_def sending_def send_def
        resolve_def Let_def select_user_for_login_find new_response_def)

lemma login_transaction_ineligible:
  assumes "tx w = None" and "faults w = []"
    and "find (\<lambda>ua. ua_user_id ua = userId) (user_account (committed w)) = Some ua"
    and "normalizedStatus = toLowerCase (trim (case ua_status ua of None \<Rightarrow> [] | Some s \<Rightarrow> s))"
    and "normalizedStatus \<notin> set USER_STATUSES \<or> normalizedStatus = ''inactive''"
  shows "login_transaction sessionId userId w =
     (Inr (Inl \<lparr>res_status = 403,
                res_body = ErrorJson (if normalizedStatus = ''inactive''
                                      then ''User account is inactive''
                                      else ''User status does not permit login''),
                res_cookie = None\<rparr>),
      w\<lparr>trace := trace w @ [ClientQuery BEGIN, ClientQuery (SelectUserForLogin userId),
                             ClientQuery ROLLBACK, Respond 403],
         ops := ops w + 3\<rparr>)"
  using assms
  by (simp add: login_transaction_def await_def client_begin_def store_call_def
        fetchUserForLogin_def client_query_def client_rollback_def sending_def send_def
        resolve_def Let_def select_user_for_login_find normalizeUserRow_def new_response_def)

lemma listUserPermissions_no_faults:
  assumes "faults w = []"
  shows "listUserPermissions (Number (Integral userId)) w =
     (Inr (if userId = 0 then []
           else new_Set (map toLowerCase (select_user_permissions userId (committed w)))),
      w\<lparr>trace := trace w @ (if userId = 0 then [] else [PoolQuery (SelectUserPermissions userId)]),
         ops := ops w + (if userId = 0 then 0 else 1)\<rparr>)"
  using assms
  by (simp add: listUserPermissions_def queryUserPermissions_def await_def pool_query_def
      store_call_def resolve_def)

lemma status_pending: "toLowerCase (trim ''pending'') = ''pending''"
  by (simp add: toLowerCase_def toLowerChar_def trim_def isWhiteSpace_def)













lemma login_unknown_user:
  assumes "truthy (req_body_user_id req)"
    and "ToNumber StringToNumber (req_body_user_id req) = Integral userId"
    and "tx w = None" and "faults w = []"
    and "find (\<lambda>ua. ua_user_id ua = userId) (user_account (committed w)) = None"
  shows "login StringToNumber randomUUID req w =
     (\<lparr>res_status = 404, res_body = ErrorJson ''User not found'', res_cookie = None\<rparr>,
      w\<lparr>trace := trace w @ [PoolConnect, ClientQuery BEGIN,
                             ClientQuery (SelectUserForLogin userId), ClientQuery ROLLBACK,
                             Respond 404, ClientRelease],
         ops := ops w + 4\<rparr>)"
proof -
  define w1 where "w1 = w\<lparr>trace := trace w @ [PoolConnect], ops := Suc (ops w)\<rparr>"
  have c: "pool_connect w = (Inr (), w1)"
    using assms(4) by (simp add: pool_connect_ok w1_def)
  have w1: "tx w1 = None" "faults w1 = []" "committed w1 = committed w"
    using assms(3,4) by (simp_all add: w1_def)
  show ?thesis
    unfolding login_valid [OF assms(1,2)]
    using c login_transaction_not_found [of w1 userId randomUUID, unfolded w1, OF refl refl assms(5)]
    by (simp add: client_release_def w1_def)
qed

lemma login_request_body: "req_body_user_id (login_request v) = v"
  by (simp add: login_request_def)

lemma example_rows:
  "find (\<lambda>ua. ua_user_id ua = 3) (user_account (committed example_world)) = Some pending_row"
  "find (\<lambda>ua. ua_user_id ua = 10) (user_account (committed example_world)) = Some inactive_row"
  "find (\<lambda>ua. ua_user_id ua = 11) (user_account (committed example_world)) = Some capitals_row"
  "find (\<lambda>ua. ua_user_id ua = 12) (user_account (committed example_world)) = Some suspended_row"
  "find (\<lambda>ua. ua_user_id ua = 99) (user_account (committed example_world)) = None"
  "find (\<lambda>ua. ua_user_id ua = - 5) (user_account (committed example_world)) = None"
  by (simp_all add: example_defs)

lemma example_statuses:
  "toLowerCase (trim ''inactive'') = ''inactive''"
  "toLowerCase (trim ''ACTIVE'') = ''active''"
  "toLowerCase (trim ''suspended'') = ''suspended''"
  by (simp_all add: toLowerCase_def toLowerChar_def trim_def isWhiteSpace_def)




lemma map_map_same: "(\<And>x. f (g x) = f x) \<Longrightarrow> map f (map g xs) = map f xs"
  by simp

lemma user_roles_after_login:
  "(\<lambda>ua. (ua_user_id ua, ua_role_id ua)) `
       set (user_account (committed_effect sessionId loginId db)) =
   (\<lambda>ua. (ua_user_id ua, ua_role_id ua)) ` set (user_account db)"
proof -
  have "map (\<lambda>ua. (ua_user_id ua, ua_role_id ua))
          (user_account (committed_effect sessionId loginId db)) =
        map (\<lambda>ua. (ua_user_id ua, ua_role_id ua)) (user_account db)"
    unfolding committed_effect_def insert_session_def update_user_login_def
    by (simp del: map_map) (rule map_map_same, simp)
  then have "set (map (\<lambda>ua. (ua_user_id ua, ua_role_id ua))
          (user_account (committed_effect sessionId loginId db))) =
        set (map (\<lambda>ua. (ua_user_id ua, ua_role_id ua)) (user_account db))"
    by (rule arg_cong)
  then show ?thesis by simp
qed

lemma role_permissions_of_alt:
  "role_permissions_of db userId =
     {n. \<exists>rp\<in>set (role_permission db). \<exists>p\<in>set (permission db).
           (userId, Some (rp_role_id rp)) \<in>
             (\<lambda>ua. (ua_user_id ua, ua_role_id ua)) ` set (user_account db) \<and>
           p_permission_id p = rp_permission_id rp \<and> p_permission p = Some n}"
  unfolding role_permissions_of_def by (auto simp: image_iff) (metis+)

lemma role_permissions_of_after_login:
  "role_permissions_of (committed_effect sessionId loginId db) userId =
     role_permissions_of db userId"
  unfolding role_permissions_of_alt user_roles_after_login
  by (simp add: committed_effect_def insert_session_def update_user_login_def)

lemma first_role_find:
  "first_role roles ua = find (\<lambda>r. ua_role_id ua = Some (r_role_id r)) roles"
  unfolding first_role_def by (induction roles) auto

lemma distinct_set_singleton: "distinct ps \<Longrightarrow> set ps = {x} \<Longrightarrow> ps = [x]"
proof -
  assume d: "distinct ps" and s: "set ps = {x}"
  then have "length ps = 1" using distinct_card [of ps] by simp
  then obtain y where "ps = [y]" by (cases ps) auto
  with s show ?thesis by simp
qed

lemma login_commits:
  assumes "truthy (req_body_user_id req)"
    and "ToNumber StringToNumber (req_body_user_id req) = Integral userId"
    and "tx w = None" and "faults w = []"
    and "find (\<lambda>ua. ua_user_id ua = userId) (user_account (committed w)) = Some ua"
    and "ua_status ua = Some ''pending''"
  shows "(case login StringToNumber randomUUID req w of (res, w') \<Rightarrow>
     res = \<lparr>res_status = 200,
            res_body = UserJson
              (normalizeUserRow (logged_in_row (committed w) ua,
                                 first_role (role_tbl (committed w)) ua))
              (if userId = 0 then []
               else new_Set (map toLowerCase (select_user_permissions userId
                      (committed_effect randomUUID userId (committed w))))),
            res_cookie = Some (SetCookie randomUUID)\<rparr> \<and>
     committed w' = committed_effect randomUUID userId (committed w))"
proof -
  define w1 where "w1 = w\<lparr>trace := trace w @ [PoolConnect], ops := Suc (ops w)\<rparr>"
  have c: "pool_connect w = (Inr (), w1)"
    using assms(4) by (simp add: pool_connect_ok w1_def)
  have w1: "tx w1 = None" "faults w1 = []" "committed w1 = committed w"
    using assms(3,4) by (simp_all add: w1_def)
  have id: "ua_user_id ua = userId"
    using assms(5) by (auto dest: find_Some_holds)
  note t = login_transaction_commits [of w1 userId ua randomUUID, unfolded w1, OF refl refl assms(5)]
  define w3 where "w3 = client_release (w1\<lparr>trace := trace w1 @
           [ClientQuery BEGIN, ClientQuery (SelectUserForLogin userId),
            ClientQuery (UpdateUserLogin userId), ClientQuery (InsertSession randomUUID userId),
            ClientQuery (SelectUserForLogin userId), ClientQuery COMMIT],
         ops := ops w1 + 6,
         committed := committed_effect randomUUID userId (committed w)\<rparr>)"
  have "faults w3 = []" using w1 by (simp add: w3_def client_release_def)
  note p = listUserPermissions_no_faults [OF this, of userId]
  have u: "user_id (normalizeUserRow (ua, first_role (role_tbl (committed w)) ua)) = userId"
    using id by (simp add: normalizeUserRow_def Let_def)
  have c3: "committed w3 = committed_effect randomUUID userId (committed w)"
    by (simp add: w3_def client_release_def)
  show ?thesis
    unfolding login_valid [OF assms(1,2)]
    using c t p assms(6) u c3
    by (simp add: status_pending USER_STATUSES_def w3_def [symmetric] Let_def send_def
        setSessionCookie_def new_response_def)
qed

text \<open>
  C3. When the store does not throw, a login of an existing user whose status is
  \<open>pending\<close>, with a session id that is not in use, is answered 200 and sets the
  session cookie to the new id. The body holds the user's fields, with the status
  \<open>active\<close>, the login stamp, and the name and default route of the role row \<open>ro\<close>
  joined to the user (all NULL when there is none), and a permissions array without
  duplicates: the names reachable from the user's role, in lower case, or the empty array
  when the \<open>user_id\<close> is 0. The user's row becomes \<open>active\<close> with \<open>last_login_at\<close>
  stamped, and exactly one session row, keyed by the new id, is added.
\<close>

theorem login_pending_user:
  assumes "truthy (req_body_user_id req)"
    and "ToNumber StringToNumber (req_body_user_id req) = Integral userId"
    and "tx w = None" and "faults w = []"
    and "find (\<lambda>ua. ua_user_id ua = userId) (user_account (committed w)) = Some ua"
    and "ua_status ua = Some ''pending''"
    and "randomUUID \<notin> s_session_id ` set (user_session (committed w))"
    and "ro = find (\<lambda>r. ua_role_id ua = Some (r_role_id r)) (role_tbl (committed w))"
  shows "(case login StringToNumber randomUUID req w of (res, w') \<Rightarrow>
     res_status res = 200 \<and> res_cookie res = Some (SetCookie randomUUID) \<and>
     (\<exists>permissions.
        res_body res =
          UserJson
            \<lparr>user_id = userId, role_id = ua_role_id ua,
             role_name = (case ro of None \<Rightarrow> None | Some r \<Rightarrow> r_role_name r),
             role = (case ro of None \<Rightarrow> None | Some r \<Rightarrow> r_role_name r),
             app_role = (case ro of None \<Rightarrow> None | Some r \<Rightarrow> r_role_name r),
             default_route = (case ro of None \<Rightarrow> None | Some r \<Rightarrow> r_default_route r),
             username = ua_username ua, name = ua_name ua, status = Some ''active'',
             last_login_at = Some (db_now (committed w))\<rparr>
            permissions \<and>
        distinct permissions \<and>
        set permissions =
          (if userId = 0 then {} else toLowerCase ` role_permissions_of (committed w) userId)) \<and>
     find (\<lambda>x. ua_user_id x = userId) (user_account (committed w')) =
       Some (ua\<lparr>ua_status := Some ''active'', ua_last_login_at := Some (db_now (committed w))\<rparr>) \<and>
     user_session (committed w') =
       user_session (committed w) @ [\<lparr>s_session_id = randomUUID, s_user_id = userId\<rparr>] \<and>
     length (filter (\<lambda>s. s_session_id s = randomUUID) (user_session (committed w'))) = 1)"
proof -
  have id: "ua_user_id ua = userId"
    using assms(5) by (auto dest: find_Some_holds)
  have fresh: "filter (\<lambda>s. s_session_id s = randomUUID) (user_session (committed w)) = []"
    using assms(7) by (auto simp: filter_empty_conv)
  have u: "normalizeUserRow (logged_in_row (committed w) ua,
                             first_role (role_tbl (committed w)) ua) =
      \<lparr>user_id = userId, role_id = ua_role_id ua,
       role_name = (case ro of None \<Rightarrow> None | Some r \<Rightarrow> r_role_name r),
       role = (case ro of None \<Rightarrow> None | Some r \<Rightarrow> r_role_name r),
       app_role = (case ro of None \<Rightarrow> None | Some r \<Rightarrow> r_role_name r),
       default_route = (case ro of None \<Rightarrow> None | Some r \<Rightarrow> r_default_route r),
       username = ua_username ua, name = ua_name ua, status = Some ''active'',
       last_login_at = Some (db_now (committed w))\<rparr>"
    using id assms(6,8)
    by (simp add: normalizeUserRow_def logged_in_row_def first_role_find Let_def)
  define ps where "ps = (if userId = 0 then []
     else new_Set (map toLowerCase (select_user_permissions userId
            (committed_effect randomUUID userId (committed w)))))"
  have p: "distinct ps"
    "set ps = (if userId = 0 then {} else toLowerCase ` role_permissions_of (committed w) userId)"
    by (simp_all add: ps_def distinct_new_Set set_new_Set set_select_user_permissions
        role_permissions_of_after_login)
  obtain res w' where l: "login StringToNumber randomUUID req w = (res, w')"
    by (cases "login StringToNumber randomUUID req w")
  from login_commits [OF assms(1-6), of randomUUID]
  have res: "res = \<lparr>res_status = 200,
            res_body = UserJson
              (normalizeUserRow (logged_in_row (committed w) ua,
                                 first_role (role_tbl (committed w)) ua)) ps,
            res_cookie = Some (SetCookie randomUUID)\<rparr>"
    and c: "committed w' = committed_effect randomUUID userId (committed w)"
    by (simp_all add: l ps_def)
  have b: "\<exists>permissions.
        res_body res =
          UserJson
            \<lparr>user_id = userId, role_id = ua_role_id ua,
             role_name = (case ro of None \<Rightarrow> None | Some r \<Rightarrow> r_role_name r),
             role = (case ro of None \<Rightarrow> None | Some r \<Rightarrow> r_role_name r),
             app_role = (case ro of None \<Rightarrow> None | Some r \<Rightarrow> r_role_name r),
             default_route = (case ro of None \<Rightarrow> None | Some r \<Rightarrow> r_default_route r),
             username = ua_username ua, name = ua_name ua, status = Some ''active'',
             last_login_at = Some (db_now (committed w))\<rparr>
            permissions \<and>
        distinct permissions \<and>
        set permissions =
          (if userId = 0 then {} else toLowerCase ` role_permissions_of (committed w) userId)"
    by (intro exI [of _ ps]) (simp add: res u p)
  have r: "find (\<lambda>x. ua_user_id x = userId) (user_account (committed w')) =
      Some (ua\<lparr>ua_status := Some ''active'', ua_last_login_at := Some (db_now (committed w))\<rparr>)"
    using assms(5,6) by (simp add: c find_after_login logged_in_row_def)
  have s: "user_session (committed w') =
      user_session (committed w) @ [\<lparr>s_session_id = randomUUID, s_user_id = userId\<rparr>]"
    by (simp add: c committed_effect_def insert_session_def update_user_login_def)
  have n: "length (filter (\<lambda>s. s_session_id s = randomUUID) (user_session (committed w'))) = 1"
    by (simp add: s fresh)
  have "res_status res = 200" "res_cookie res = Some (SetCookie randomUUID)"
    by (simp_all add: res)
  with b r s n show ?thesis
    unfolding l by simp
qed


theorem login_pending_user_witness:
  "truthy (Number (Integral 3)) \<and>
   ToNumber nothing_numeric (Number (Integral 3)) = Integral 3 \<and>
   tx example_world = None \<and> faults example_world = [] \<and>
   find (\<lambda>ua. ua_user_id ua = 3) (user_account (committed example_world)) = Some pending_row \<and>
   ua_status pending_row = Some ''pending'' \<and>
   ''uuid-1'' \<notin> s_session_id ` set (user_session (committed example_world)) \<and>
   find (\<lambda>r. ua_role_id pending_row = Some (r_role_id r)) (role_tbl (committed example_world)) =
     Some \<lparr>r_role_id = 2, r_role_name = Some ''Admin'', r_default_route = Some ''/Dashboard''\<rparr> \<and>
   fst (login nothing_numeric ''uuid-1'' (login_request (Number (Integral 3))) example_world) =
     \<lparr>res_status = 200,
      res_body = UserJson
        \<lparr>user_id = 3, role_id = Some 2, role_name = Some ''Admin'', role = Some ''Admin'',
         app_role = Some ''Admin'', default_route = Some ''/Dashboard'',
         username = ''user@example.com'', name = Some ''User'', status = Some ''active'',
         last_login_at = Some 1000\<rparr>
        [''view locations''],
      res_cookie = Some (SetCookie ''uuid-1'')\<rparr> \<and>
   user_session (committed (snd (login nothing_numeric ''uuid-1''
                      (login_request (Number (Integral 3))) example_world))) =
     [\<lparr>s_session_id = ''session-value'', s_user_id = 3\<rparr>,
      \<lparr>s_session_id = ''orphan'', s_user_id = 99\<rparr>,
      \<lparr>s_session_id = ''uuid-1'', s_user_id = 3\<rparr>] \<and>
   find (\<lambda>ua. ua_user_id ua = 3)
     (user_account (committed (snd (login nothing_numeric ''uuid-1''
                      (login_request (Number (Integral 3))) example_world)))) =
     Some (pending_row\<lparr>ua_status := Some ''active'', ua_last_login_at := Some 1000\<rparr>)"
proof -
  have h: "truthy (req_body_user_id (login_request (Number (Integral 3))))"
    "ToNumber nothing_numeric (req_body_user_id (login_request (Number (Integral 3)))) = Integral 3"
    "tx example_world = None" "faults example_world = []"
    "ua_status pending_row = Some ''pending''"
    "''uuid-1'' \<notin> s_session_id ` set (user_session (committed example_world))"
    by (simp_all add: login_request_body example_defs)
  have ro: "Some \<lparr>r_role_id = 2, r_role_name = Some ''Admin'',
                  r_default_route = Some ''/Dashboard''\<rparr> =
      find (\<lambda>r. ua_role_id pending_row = Some (r_role_id r)) (role_tbl (committed example_world))"
    by (simp add: example_defs)
  have d: "user_session (committed example_world) =
      [\<lparr>s_session_id = ''session-value'', s_user_id = 3\<rparr>,
       \<lparr>s_session_id = ''orphan'', s_user_id = 99\<rparr>]"
    "db_now (committed example_world) = 1000"
    "ua_role_id pending_row = Some 2" "ua_username pending_row = ''user@example.com''"
    "ua_name pending_row = Some ''User''"
    by (simp_all add: example_defs)
  have r: "toLowerCase ` role_permissions_of (committed example_world) 3 = {''view locations''}"
    by (simp add: example_world_def example_role_permissions toLowerCase_def toLowerChar_def)
  obtain res w' where l:
    "login nothing_numeric ''uuid-1'' (login_request (Number (Integral 3))) example_world = (res, w')"
    by (cases "login nothing_numeric ''uuid-1'' (login_request (Number (Integral 3))) example_world")
  note t = login_pending_user [OF h(1,2,3,4) example_rows(1) h(5,6) ro, unfolded l]
  from t obtain permissions where
    b: "res_body res = UserJson
        \<lparr>user_id = 3, role_id = Some 2, role_name = Some ''Admin'', role = Some ''Admin'',
         app_role = Some ''Admin'', default_route = Some ''/Dashboard'',
         username = ''user@example.com'', name = Some ''User'', status = Some ''active'',
         last_login_at = Some 1000\<rparr> permissions"
    and dp: "distinct permissions" and sp: "set permissions = {''view locations''}"
    by (simp add: d r) blast
  from t have st: "res_status res = 200" "res_cookie res = Some (SetCookie ''uuid-1'')"
    and us: "user_session (committed w') =
     [\<lparr>s_session_id = ''session-value'', s_user_id = 3\<rparr>,
      \<lparr>s_session_id = ''orphan'', s_user_id = 99\<rparr>,
      \<lparr>s_session_id = ''uuid-1'', s_user_id = 3\<rparr>]"
    and fa: "find (\<lambda>ua. ua_user_id ua = 3) (user_account (committed w')) =
     Some (pending_row\<lparr>ua_status := Some ''active'', ua_last_login_at := Some 1000\<rparr>)"
    by (simp_all add: d)
  have "permissions = [''view locations'']"
    using dp sp by (rule distinct_set_singleton)
  with b st have "res = \<lparr>res_status = 200,
      res_body = UserJson
        \<lparr>user_id = 3, role_id = Some 2, role_name = Some ''Admin'', role = Some ''Admin'',
         app_role = Some ''Admin'', default_route = Some ''/Dashboard'',
         username = ''user@example.com'', name = Some ''User'', status = Some ''active'',
         last_login_at = Some 1000\<rparr>
        [''view locations''],
      res_cookie = Some (SetCookie ''uuid-1'')\<rparr>"
    by (cases res) simp
  with us fa h example_rows(1) ro [symmetric] show ?thesis
    by (simp add: l login_request_body)
qed

lemma zero_login:
  "fst (login zero_numeric ''uuid-1'' (login_request (String ''0'')) zero_world) =
     \<lparr>res_status = 200,
      res_body = UserJson
        \<lparr>user_id = 0, role_id = Some 2, role_name = Some ''Admin'', role = Some ''Admin'',
         app_role = Some ''Admin'', default_route = Some ''/Dashboard'',
         username = ''zero@example.com'', name = Some ''Zero'', status = Some ''active'',
         last_login_at = Some 1000\<rparr>
        [],
      res_cookie = Some (SetCookie ''uuid-1'')\<rparr>"
proof -
  have h: "truthy (req_body_user_id (login_request (String ''0'')))"
    "ToNumber zero_numeric (req_body_user_id (login_request (String ''0''))) = Integral 0"
    "tx zero_world = None" "faults zero_world = []"
    "find (\<lambda>ua. ua_user_id ua = 0) (user_account (committed zero_world)) = Some zero_row"
    "ua_status zero_row = Some ''pending''"
    by (simp_all add: login_request_body zero_numeric_def zero_world_def zero_row_def
        example_defs)
  show ?thesis
    using login_commits [OF h, of "''uuid-1''"]
    by (simp add: normalizeUserRow_def logged_in_row_def first_role_def Let_def zero_world_def
        zero_row_def example_defs split: prod.splits)
qed

text \<open>
  C6 as it is written fails for a user whose \<open>user_id\<close> is 0: the role of that user
  grants \<open>view locations\<close>, and the gate's resolver finds it, but
  \<open>listUserPermissions\<close> returns the empty array and leaves the store alone. The login
  of that user, with \<open>user_id: "0"\<close> in the body, is answered with the empty array.
\<close>

theorem resolved_permissions_user_zero_counterexample:
  "find (\<lambda>ua. ua_user_id ua = 0) (user_account (committed zero_world)) = Some zero_row \<and>
   ua_role_id zero_row = Some 2 \<and>
   toLowerCase ` role_permissions_of (committed zero_world) 0 = {''view locations''} \<and>
   listUserPermissions (Number (Integral 0)) zero_world = (Inr [], zero_world) \<and>
   fst (getUserPermissions zero_request zero_world) =
     Inr ([''view locations''], zero_request\<lparr>req_userPermissions := Some [''view locations'']\<rparr>) \<and>
   fst (login zero_numeric ''uuid-1'' (login_request (String ''0'')) zero_world) =
     \<lparr>res_status = 200,
      res_body = UserJson
        \<lparr>user_id = 0, role_id = Some 2, role_name = Some ''Admin'', role = Some ''Admin'',
         app_role = Some ''Admin'', default_route = Some ''/Dashboard'',
         username = ''zero@example.com'', name = Some ''Zero'', status = Some ''active'',
         last_login_at = Some 1000\<rparr>
        [],
      res_cookie = Some (SetCookie ''uuid-1'')\<rparr>"
proof -
  have nf: "map_of (faults zero_world) (ops zero_world) = None"
    by (simp add: zero_world_def example_world_def)
  have u: "req_user zero_request =
      Some (example_user\<lparr>user_id := 0, username := ''zero@example.com'', name := Some ''Zero''\<rparr>)"
    "req_userPermissions zero_request = None"
    by (simp_all add: zero_request_def)
  have g: "fst (getUserPermissions zero_request zero_world) =
     Inr ([''view locations''], zero_request\<lparr>req_userPermissions := Some [''view locations'']\<rparr>)"
    by (simp add: getUserPermissions_ok [OF nf u] zero_select toLowerCase_def toLowerChar_def
        new_Set_def)
  have l: "listUserPermissions (Number (Integral 0)) zero_world = (Inr [], zero_world)"
    by (simp add: listUserPermissions_def resolve_def)
  have f: "find (\<lambda>ua. ua_user_id ua = 0) (user_account (committed zero_world)) = Some zero_row"
    "ua_role_id zero_row = Some 2"
    by (simp_all add: zero_world_def zero_row_def example_defs)
  from f zero_role_permissions l g zero_login show ?thesis by simp
qed

text \<open>
  C5, as the code has it. The status of the user is trimmed and lowered before it is
  tested. When the store does not throw, a login of an existing user whose status, so
  normalized, is \<open>inactive\<close> is answered 403 \<open>User account is inactive\<close>; one whose
  normalized status is none of \<open>pending\<close>, \<open>active\<close>, \<open>inactive\<close> (a missing status
  included) is answered 403 \<open>User status does not permit login\<close>. In both cases the
  transaction is rolled back, the client released, and no permissions are looked up. A
  user whose normalized status is \<open>pending\<close> or \<open>active\<close> is logged in.
\<close>

theorem login_ineligible_status:
  assumes "truthy (req_body_user_id req)"
    and "ToNumber StringToNumber (req_body_user_id req) = Integral userId"
    and "tx w = None" and "faults w = []"
    and "find (\<lambda>ua. ua_user_id ua = userId) (user_account (committed w)) = Some ua"
    and "normalizedStatus = toLowerCase (trim (case ua_status ua of None \<Rightarrow> [] | Some s \<Rightarrow> s))"
  shows
   "(normalizedStatus = ''inactive'' \<longrightarrow>
       login StringToNumber randomUUID req w =
         (\<lparr>res_status = 403, res_body = ErrorJson ''User account is inactive'', res_cookie = None\<rparr>,
          w\<lparr>trace := trace w @ [PoolConnect, ClientQuery BEGIN,
                                 ClientQuery (SelectUserForLogin userId), ClientQuery ROLLBACK,
                                 Respond 403, ClientRelease],
             ops := ops w + 4\<rparr>)) \<and>
    (normalizedStatus \<notin> set USER_STATUSES \<longrightarrow>
       login StringToNumber randomUUID req w =
         (\<lparr>res_status = 403, res_body = ErrorJson ''User status does not permit login'',
           res_cookie = None\<rparr>,
          w\<lparr>trace := trace w @ [PoolConnect, ClientQuery BEGIN,
                                 ClientQuery (SelectUserForLogin userId), ClientQuery ROLLBACK,
                                 Respond 403, ClientRelease],
             ops := ops w + 4\<rparr>)) \<and>
    (normalizedStatus \<in> {''pending'', ''active''} \<longrightarrow>
       res_status (fst (login StringToNumber randomUUID req w)) = 200)"
proof -
  define w1 where "w1 = w\<lparr>trace := trace w @ [PoolConnect], ops := Suc (ops w)\<rparr>"
  have c: "pool_connect w = (Inr (), w1)"
    using assms(4) by (simp add: pool_connect_ok w1_def)
  have w1: "tx w1 = None" "faults w1 = []" "committed w1 = committed w"
    using assms(3,4) by (simp_all add: w1_def)
  have inactive: "''inactive'' \<in> set USER_STATUSES" by (simp add: USER_STATUSES_def)
  have rej: "normalizedStatus \<notin> set USER_STATUSES \<or> normalizedStatus = ''inactive'' \<Longrightarrow>
      login StringToNumber randomUUID req w =
         (\<lparr>res_status = 403,
           res_body = ErrorJson (if normalizedStatus = ''inactive''
                                 then ''User account is inactive''
                                 else ''User status does not permit login''),
           res_cookie = None\<rparr>,
          w\<lparr>trace := trace w @ [PoolConnect, ClientQuery BEGIN,
                                 ClientQuery (SelectUserForLogin userId), ClientQuery ROLLBACK,
                                 Respond 403, ClientRelease],
             ops := ops w + 4\<rparr>)"
    unfolding login_valid [OF assms(1,2)]
    using c login_transaction_ineligible [of w1 userId ua normalizedStatus randomUUID,
        unfolded w1, OF refl refl assms(5,6)]
    by (simp add: client_release_def w1_def)
  have acc: "normalizedStatus \<in> {''pending'', ''active''} \<Longrightarrow>
      res_status (fst (login StringToNumber randomUUID req w)) = 200"
  proof -
    assume "normalizedStatus \<in> {''pending'', ''active''}"
    then have ok: "toLowerCase (trim (case ua_status ua of None \<Rightarrow> [] | Some s \<Rightarrow> s)) \<in> set USER_STATUSES"
        "toLowerCase (trim (case ua_status ua of None \<Rightarrow> [] | Some s \<Rightarrow> s)) \<noteq> ''inactive''"
      using assms(6) by (auto simp: USER_STATUSES_def)
    note t = login_transaction_commits [of w1 userId ua randomUUID, unfolded w1,
        OF refl refl assms(5) ok]
    have id: "ua_user_id ua = userId"
      using assms(5) by (auto dest: find_Some_holds)
    have f: "faults (client_release (w1\<lparr>trace := trace w1 @
           [ClientQuery BEGIN, ClientQuery (SelectUserForLogin userId),
            ClientQuery (UpdateUserLogin userId), ClientQuery (InsertSession randomUUID userId),
            ClientQuery (SelectUserForLogin userId), ClientQuery COMMIT],
         ops := ops w1 + 6,
         committed := committed_effect randomUUID userId (committed w)\<rparr>)) = []"
      using w1 by (simp add: client_release_def)
    show ?thesis
      unfolding login_valid [OF assms(1,2)]
      using c t id
      by (simp add: Let_def normalizeUserRow_def listUserPermissions_no_faults [OF f]
          send_def setSessionCookie_def new_response_def)
  qed
  from rej acc inactive show ?thesis by auto
qed

theorem login_ineligible_status_witness:
  "login nothing_numeric ''uuid-1'' (login_request (Number (Integral 10))) example_world =
     (\<lparr>res_status = 403, res_body = ErrorJson ''User account is inactive'', res_cookie = None\<rparr>,
      example_world\<lparr>trace := [PoolConnect, ClientQuery BEGIN, ClientQuery (SelectUserForLogin 10),
                                ClientQuery ROLLBACK, Respond 403, ClientRelease],
                     ops := 4\<rparr>) \<and>
   ''suspended'' \<notin> set USER_STATUSES \<and>
   login nothing_numeric ''uuid-1'' (login_request (Number (Integral 12))) example_world =
     (\<lparr>res_status = 403, res_body = ErrorJson ''User status does not permit login'',
       res_cookie = None\<rparr>,
      example_world\<lparr>trace := [PoolConnect, ClientQuery BEGIN, ClientQuery (SelectUserForLogin 12),
                                ClientQuery ROLLBACK, Respond 403, ClientRelease],
                     ops := 4\<rparr>) \<and>
   res_status (fst (login nothing_numeric ''uuid-1'' (login_request (Number (Integral 11)))
                      example_world)) = 200"
proof -
  have h: "truthy (req_body_user_id (login_request (Number (Integral i))))" if "i \<noteq> 0" for i
    using that by (simp add: login_request_body)
  have n: "ToNumber nothing_numeric (req_body_user_id (login_request (Number (Integral i)))) = Integral i"
    for i by (simp add: login_request_body)
  have w: "tx example_world = None" "faults example_world = []"
    by (simp_all add: example_world_def)
  have s: "''inactive'' = toLowerCase (trim (case ua_status inactive_row of None \<Rightarrow> [] | Some s \<Rightarrow> s))"
    "''suspended'' = toLowerCase (trim (case ua_status suspended_row of None \<Rightarrow> [] | Some s \<Rightarrow> s))"
    "''active'' = toLowerCase (trim (case ua_status capitals_row of None \<Rightarrow> [] | Some s \<Rightarrow> s))"
    by (simp_all add: example_statuses inactive_row_def suspended_row_def capitals_row_def)
  show ?thesis
    using login_ineligible_status [OF h n w example_rows(2) s(1), of "''uuid-1''"]
          login_ineligible_status [OF h n w example_rows(4) s(2), of "''uuid-1''"]
          login_ineligible_status [OF h n w example_rows(3) s(3), of "''uuid-1''"]
    by (simp add: USER_STATUSES_def) (simp add: example_world_def)
qed

text \<open>
  The claim as it is written fails for a status that differs from a known one in case
  only: user 11 has the status \<open>ACTIVE\<close>, which is outside pending, active and
  inactive, and is logged in: the answer is 200, the transaction is committed and not
  rolled back.
\<close>

theorem login_status_in_capitals_counterexample:
  "capitals_row \<in> set (user_account (committed example_world)) \<and>
   ua_user_id capitals_row = 11 \<and> ua_status capitals_row = Some ''ACTIVE'' \<and>
   ''ACTIVE'' \<notin> set USER_STATUSES \<and>
   res_status (fst (login nothing_numeric ''uuid-1'' (login_request (Number (Integral 11)))
                      example_world)) = 200 \<and>
   trace (snd (login nothing_numeric ''uuid-1'' (login_request (Number (Integral 11)))
                 example_world)) =
     [PoolConnect, ClientQuery BEGIN, ClientQuery (SelectUserForLogin 11),
      ClientQuery (UpdateUserLogin 11), ClientQuery (InsertSession ''uuid-1'' 11),
      ClientQuery (SelectUserForLogin 11), ClientQuery COMMIT, ClientRelease,
      PoolQuery (SelectUserPermissions 11), Respond 200]"
  by code_simp

text \<open>
  C2, as the code has it. For a login that has passed validation and obtained a client:
  the committed data is afterwards either what it was, or what it was with both writes of
  the transaction, never with one of them; the client is released exactly once. When a
  statement from \<open>BEGIN\<close> to \<open>COMMIT\<close> throws, \<open>ROLLBACK\<close> is sent and the client is
  released before the 500 answer is sent, and the data is unchanged. When the handler
  rejects the login (404, 403), \<open>ROLLBACK\<close> is sent before the answer and the client is
  released after it, and the data is unchanged. A 200 answer comes with both writes. When
  the store does not throw, a login with an unknown \<open>user_id\<close> is answered 404
  \<open>User not found\<close> and no session row is added.
\<close>

theorem login_atomic:
  assumes "truthy (req_body_user_id req)"
    and "ToNumber StringToNumber (req_body_user_id req) = Integral userId"
    and "tx w = None"
    and "map_of (faults w) (ops w) = None"
  shows "(case login StringToNumber randomUUID req w of (res, w') \<Rightarrow>
     (\<exists>evs. trace w' = trace w @ evs \<and>
       (committed w' = committed w \<or>
        committed w' = committed_effect randomUUID userId (committed w)) \<and>
       count_list evs ClientRelease = 1 \<and>
       ((\<exists>err. fst (login_transaction randomUUID userId
                      (w\<lparr>trace := trace w @ [PoolConnect], ops := Suc (ops w)\<rparr>)) = Inl err) \<longrightarrow>
          res_status res = 500 \<and> committed w' = committed w \<and>
          (\<exists>pre. evs = pre @ [ClientQuery ROLLBACK, ClientRelease, Respond 500])) \<and>
       (res_status res \<noteq> 500 \<and> res_status res \<noteq> 200 \<longrightarrow>
          res_status res \<in> {404, 403} \<and> committed w' = committed w \<and>
          evs = [PoolConnect, ClientQuery BEGIN, ClientQuery (SelectUserForLogin userId),
                 ClientQuery ROLLBACK, Respond (res_status res), ClientRelease]) \<and>
       (res_status res = 200 \<longrightarrow>
          committed w' = committed_effect randomUUID userId (committed w))) \<and>
     (faults w = [] \<and>
      (\<forall>ua\<in>set (user_account (committed w)). ua_user_id ua \<noteq> userId) \<longrightarrow>
        res = \<lparr>res_status = 404, res_body = ErrorJson ''User not found'', res_cookie = None\<rparr> \<and>
        user_session (committed w') = user_session (committed w)))"
proof -
  have unknown: "login StringToNumber randomUUID req w =
     (\<lparr>res_status = 404, res_body = ErrorJson ''User not found'', res_cookie = None\<rparr>,
      w\<lparr>trace := trace w @ [PoolConnect, ClientQuery BEGIN,
                             ClientQuery (SelectUserForLogin userId), ClientQuery ROLLBACK,
                             Respond 404, ClientRelease],
         ops := ops w + 4\<rparr>)"
    if "faults w = []" "\<forall>ua\<in>set (user_account (committed w)). ua_user_id ua \<noteq> userId"
    using that login_unknown_user [OF assms(1,2,3)] by (simp add: find_unknown)
  from login_paths [OF assms, of randomUUID] unknown show ?thesis
    by (auto split: prod.splits)
qed

lemma example_insert_throws:
  "login_transaction ''uuid-1'' 3 (failing_insert_world\<lparr>trace := [PoolConnect], ops := 1\<rparr>) =
     (Inl (Error ''error'' ''duplicate key value''),
      failing_insert_world\<lparr>trace := [PoolConnect, ClientQuery BEGIN,
          ClientQuery (SelectUserForLogin 3), ClientQuery (UpdateUserLogin 3),
          ClientQuery (InsertSession ''uuid-1'' 3)],
        ops := 5, tx := Some (update_user_login 3 example_db)\<rparr>)"
  by code_simp

lemma example_login_insert_throws:
  "login nothing_numeric ''uuid-1'' (login_request (Number (Integral 3))) failing_insert_world =
     (\<lparr>res_status = 500, res_body = ErrorJson ''Internal server error, duplicate key value'',
       res_cookie = None\<rparr>,
      failing_insert_world\<lparr>trace := [PoolConnect, ClientQuery BEGIN,
          ClientQuery (SelectUserForLogin 3), ClientQuery (UpdateUserLogin 3),
          ClientQuery (InsertSession ''uuid-1'' 3), ClientQuery ROLLBACK, ClientRelease,
          Respond 500],
        ops := 6\<rparr>)"
  by code_simp

theorem login_atomic_witness:
  "truthy (Number (Integral 3)) \<and> tx failing_insert_world = None \<and>
   map_of (faults failing_insert_world) (ops failing_insert_world) = None \<and>
   fst (login_transaction ''uuid-1'' 3
          (failing_insert_world\<lparr>trace := [PoolConnect], ops := 1\<rparr>)) =
     Inl (Error ''error'' ''duplicate key value'') \<and>
   res_status (fst (login nothing_numeric ''uuid-1'' (login_request (Number (Integral 3)))
                      failing_insert_world)) = 500 \<and>
   committed (snd (login nothing_numeric ''uuid-1'' (login_request (Number (Integral 3)))
                     failing_insert_world)) = committed failing_insert_world \<and>
   trace (snd (login nothing_numeric ''uuid-1'' (login_request (Number (Integral 3)))
                 failing_insert_world)) =
     [PoolConnect, ClientQuery BEGIN, ClientQuery (SelectUserForLogin 3),
      ClientQuery (UpdateUserLogin 3), ClientQuery (InsertSession ''uuid-1'' 3),
      ClientQuery ROLLBACK, ClientRelease, Respond 500] \<and>
   faults example_world = [] \<and>
   filter (\<lambda>ua. ua_user_id ua = 99) (user_account (committed example_world)) = [] \<and>
   fst (login nothing_numeric ''uuid-1'' (login_request (Number (Integral 99))) example_world) =
     \<lparr>res_status = 404, res_body = ErrorJson ''User not found'', res_cookie = None\<rparr> \<and>
   user_session (committed (snd (login nothing_numeric ''uuid-1''
       (login_request (Number (Integral 99))) example_world))) =
     user_session (committed example_world) \<and>
   res_status (fst (login nothing_numeric ''uuid-1'' (login_request (Number (Integral 10)))
                      example_world)) = 403 \<and>
   trace (snd (login nothing_numeric ''uuid-1'' (login_request (Number (Integral 10)))
                 example_world)) =
     [PoolConnect, ClientQuery BEGIN, ClientQuery (SelectUserForLogin 10),
      ClientQuery ROLLBACK, Respond 403, ClientRelease] \<and>
   res_status (fst (login nothing_numeric ''uuid-1'' (login_request (Number (Integral 3)))
                      example_world)) = 200 \<and>
   committed (snd (login nothing_numeric ''uuid-1'' (login_request (Number (Integral 3)))
                     example_world)) = committed_effect ''uuid-1'' 3 (committed example_world)"
proof -
  have h: "truthy (req_body_user_id (login_request (Number (Integral i))))" if "i \<noteq> 0" for i
    using that by (simp add: login_request_body)
  have n: "ToNumber nothing_numeric (req_body_user_id (login_request (Number (Integral i)))) = Integral i"
    for i by (simp add: login_request_body)
  have w: "tx example_world = None" "map_of (faults example_world) (ops example_world) = None"
    "tx failing_insert_world = None"
    "map_of (faults failing_insert_world) (ops failing_insert_world) = None"
    "faults example_world = []"
    "trace example_world = []" "trace failing_insert_world = []" "ops failing_insert_world = 0"
    "committed failing_insert_world = committed example_world"
    by (simp_all add: example_world_def failing_insert_world_def)
  have u: "\<forall>ua\<in>set (user_account (committed example_world)). ua_user_id ua \<noteq> 99"
    "filter (\<lambda>ua. ua_user_id ua = 99) (user_account (committed example_world)) = []"
    by (simp_all add: example_defs)
  have s10: "res_status (fst (login nothing_numeric ''uuid-1'' (login_request (Number (Integral 10)))
                      example_world)) = 403"
    and s3: "res_status (fst (login nothing_numeric ''uuid-1'' (login_request (Number (Integral 3)))
                      example_world)) = 200"
    by code_simp+
  show ?thesis
    using login_atomic [OF h n w(3,4), of 3 "''uuid-1''"]
          login_atomic [OF h n w(1,2), of 99 "''uuid-1''"]
          login_atomic [OF h n w(1,2), of 10 "''uuid-1''"]
          login_atomic [OF h n w(1,2), of 3 "''uuid-1''"]
          example_insert_throws example_login_insert_throws w u s10 s3
    by (simp split: prod.splits)
qed

text \<open>
  The claim as it is written fails where it says that the client is released before the
  error answer is produced: for an unknown \<open>user_id\<close> the handler sends the 404 answer
  and releases the client after it, in its \<open>finally\<close> block.
\<close>

theorem login_release_after_response_counterexample:
  "login nothing_numeric ''uuid-1'' (login_request (Number (Integral 99))) example_world =
     (\<lparr>res_status = 404, res_body = ErrorJson ''User not found'', res_cookie = None\<rparr>,
      example_world\<lparr>trace := [PoolConnect, ClientQuery BEGIN, ClientQuery (SelectUserForLogin 99),
                                ClientQuery ROLLBACK, Respond 404, ClientRelease],
                     ops := 4\<rparr>) \<and>
   last [PoolConnect, ClientQuery BEGIN, ClientQuery (SelectUserForLogin 99),
         ClientQuery ROLLBACK, Respond 404, ClientRelease] = ClientRelease"
  using login_unknown_user [of "login_request (Number (Integral 99))" nothing_numeric 99
          example_world "''uuid-1''"]
  by (simp add: login_request_body example_rows) (simp add: example_world_def)

section \<open>Properties of sessions and logout\<close>

lemma inner_join_iff:
  "(a, b) \<in> set (inner_join as bs on) \<longleftrightarrow> a \<in> set as \<and> b \<in> set bs \<and> on a b"
  by (auto simp: inner_join_def)

lemma left_join_fst: "(a, bo) \<in> set (left_join as bs on) \<Longrightarrow> a \<in> set as"
  by (cases bo) (simp_all add: left_join_Some left_join_None)

lemma left_join_total: "a \<in> set as \<Longrightarrow> \<exists>bo. (a, bo) \<in> set (left_join as bs on)"
proof (cases "\<forall>b\<in>set bs. \<not> on a b")
  case True
  assume "a \<in> set as"
  with True have "(a, None) \<in> set (left_join as bs on)" by (simp add: left_join_None)
  then show ?thesis by blast
next
  case False
  then obtain b where "b \<in> set bs" "on a b" by blast
  moreover assume "a \<in> set as"
  ultimately have "(a, Some b) \<in> set (left_join as bs on)" by (simp add: left_join_Some)
  then show ?thesis by blast
qed

lemma select_user_by_session_empty:
  "select_user_by_session sessionId db = [] \<longleftrightarrow>
     \<not> (\<exists>s\<in>set (user_session db). \<exists>ua\<in>set (user_account db).
           s_session_id s = sessionId \<and> ua_user_id ua = s_user_id s)"
proof
  assume e: "select_user_by_session sessionId db = []"
  show "\<not> (\<exists>s\<in>set (user_session db). \<exists>ua\<in>set (user_account db).
           s_session_id s = sessionId \<and> ua_user_id ua = s_user_id s)"
  proof
    assume "\<exists>s\<in>set (user_session db). \<exists>ua\<in>set (user_account db).
           s_session_id s = sessionId \<and> ua_user_id ua = s_user_id s"
    then obtain s ua where j: "s \<in> set (user_session db)" "ua \<in> set (user_account db)"
        "s_session_id s = sessionId" "ua_user_id ua = s_user_id s" by blast
    then have "(s, ua) \<in> set (inner_join (user_session db) (user_account db)
                     (\<lambda>s ua. ua_user_id ua = s_user_id s))"
      by (simp add: inner_join_iff)
    from left_join_total [OF this] obtain ro where
      "((s, ua), ro) \<in> set (left_join (inner_join (user_session db) (user_account db)
                     (\<lambda>s ua. ua_user_id ua = s_user_id s)) (role_tbl db)
                  (\<lambda>(s, ua) r. ua_role_id ua = Some (r_role_id r)))"
      by blast
    with j(3) have "filter (\<lambda>((s, ua), ro). s_session_id s = sessionId)
               (left_join (inner_join (user_session db) (user_account db)
                     (\<lambda>s ua. ua_user_id ua = s_user_id s)) (role_tbl db)
                  (\<lambda>(s, ua) r. ua_role_id ua = Some (r_role_id r))) \<noteq> []"
      by (force simp: filter_empty_conv)
    with e show False
      by (simp add: select_user_by_session_def)
  qed
next
  assume n: "\<not> (\<exists>s\<in>set (user_session db). \<exists>ua\<in>set (user_account db).
           s_session_id s = sessionId \<and> ua_user_id ua = s_user_id s)"
  have "filter (\<lambda>((s, ua), ro). s_session_id s = sessionId)
               (left_join (inner_join (user_session db) (user_account db)
                     (\<lambda>s ua. ua_user_id ua = s_user_id s)) (role_tbl db)
                  (\<lambda>(s, ua) r. ua_role_id ua = Some (r_role_id r))) = []"
    using n by (auto simp: filter_empty_conv dest!: left_join_fst simp: inner_join_iff)
  then show "select_user_by_session sessionId db = []"
    by (simp add: select_user_by_session_def)
qed

lemma fetchUserBySession_ok:
  "map_of (faults w) (ops w) = None \<Longrightarrow>
   fetchUserBySession sessionId w =
     (Inr (case select_user_by_session sessionId (committed w) of
             [] \<Rightarrow> None
           | ((s, ua), ro) # _ \<Rightarrow> Some (normalizeUserRow (ua, ro))),
      w\<lparr>trace := trace w @ [PoolQuery (SelectUserBySession sessionId)], ops := Suc (ops w)\<rparr>)"
  by (simp add: fetchUserBySession_def await_def pool_query_def store_call_def resolve_def)

lemma delete_session_twice:
  "delete_session sessionId (delete_session sessionId db) = delete_session sessionId db"
  by (simp add: delete_session_def)

lemma example_cookies:
  "extractSessionId (cookie_request ''/location'' ''pp_session=orphan'') = Inr (Some ''orphan'')"
  "extractSessionId (cookie_request ''/auth/logout'' ''theme=dark; pp_session=session-value'') =
     Inr (Some ''session-value'')"
  "extractSessionId (cookie_request ''/auth/logout'' ''pp_session=%'') = Inl URIError"
  "isAuthExemptPath ''/location'' = False"
  by code_simp+

text \<open>
  C7. Resolving a session id whose session row does not exist, or whose session rows
  belong to no existing user, yields none (when the query does not throw). For a request
  with that session id in its cookie, on a path that is not exempt and with a method other
  than OPTIONS, the identity middleware then clears the session cookie and answers 401
  \<open>Not authenticated\<close>; the request is left as it came, without a user.
\<close>

theorem session_resolution_fails_closed:
  assumes "map_of (faults w) (ops w) = None"
    and "(\<forall>s\<in>set (user_session (committed w)). s_session_id s \<noteq> sessionId) \<or>
         (\<forall>s\<in>set (user_session (committed w)). s_session_id s = sessionId \<longrightarrow>
            (\<forall>ua\<in>set (user_account (committed w)). ua_user_id ua \<noteq> s_user_id s))"
  shows "fst (fetchUserBySession sessionId w) = Inr None \<and>
    (req_method req \<noteq> ''OPTIONS'' \<and> \<not> isAuthExemptPath (req_path req) \<and>
     extractSessionId req = Inr (Some sessionId) \<and> sessionId \<noteq> [] \<longrightarrow>
       identity_middleware req w =
         ((Sent \<lparr>res_status = 401, res_body = ErrorJson ''Not authenticated'',
                 res_cookie = Some ClearCookie\<rparr>, req),
          w\<lparr>trace := trace w @ [PoolQuery (SelectUserBySession sessionId), Respond 401],
             ops := Suc (ops w)\<rparr>))"
proof -
  from assms(2) have "select_user_by_session sessionId (committed w) = []"
    unfolding select_user_by_session_empty by blast
  with assms(1) have f: "fetchUserBySession sessionId w =
     (Inr None, w\<lparr>trace := trace w @ [PoolQuery (SelectUserBySession sessionId)], ops := Suc (ops w)\<rparr>)"
    by (simp add: fetchUserBySession_ok)
  then show ?thesis
    by (auto simp: identity_middleware_def Let_def try_catch_def await_def of_result_def
        sending_def send_def resolve_def clearSessionCookie_def new_response_def)
qed

theorem session_resolution_fails_closed_witness:
  "map_of (faults example_world) (ops example_world) = None \<and>
   filter (\<lambda>s. s_session_id s = ''nope'') (user_session (committed example_world)) = [] \<and>
   fst (fetchUserBySession ''nope'' example_world) = Inr None \<and>
   filter (\<lambda>ua. ua_user_id ua = 99) (user_account (committed example_world)) = [] \<and>
   fst (fetchUserBySession ''orphan'' example_world) = Inr None \<and>
   req_method (cookie_request ''/location'' ''pp_session=orphan'') \<noteq> ''OPTIONS'' \<and>
   \<not> isAuthExemptPath (req_path (cookie_request ''/location'' ''pp_session=orphan'')) \<and>
   extractSessionId (cookie_request ''/location'' ''pp_session=orphan'') = Inr (Some ''orphan'') \<and>
   identity_middleware (cookie_request ''/location'' ''pp_session=orphan'') example_world =
     ((Sent \<lparr>res_status = 401, res_body = ErrorJson ''Not authenticated'',
             res_cookie = Some ClearCookie\<rparr>,
       cookie_request ''/location'' ''pp_session=orphan''),
      example_world\<lparr>trace := [PoolQuery (SelectUserBySession ''orphan''), Respond 401],
                     ops := 1\<rparr>)"
proof -
  have nf: "map_of (faults example_world) (ops example_world) = None"
    by (simp add: example_world_def)
  have nope: "(\<forall>s\<in>set (user_session (committed example_world)). s_session_id s \<noteq> ''nope'') \<or>
         (\<forall>s\<in>set (user_session (committed example_world)). s_session_id s = ''nope'' \<longrightarrow>
            (\<forall>ua\<in>set (user_account (committed example_world)). ua_user_id ua \<noteq> s_user_id s))"
    by (simp add: example_defs)
  have orphan: "(\<forall>s\<in>set (user_session (committed example_world)). s_session_id s \<noteq> ''orphan'') \<or>
         (\<forall>s\<in>set (user_session (committed example_world)). s_session_id s = ''orphan'' \<longrightarrow>
            (\<forall>ua\<in>set (user_account (committed example_world)). ua_user_id ua \<noteq> s_user_id s))"
    by (simp add: example_defs)
  have f: "filter (\<lambda>s. s_session_id s = ''nope'') (user_session (committed example_world)) = []"
    "filter (\<lambda>ua. ua_user_id ua = 99) (user_account (committed example_world)) = []"
    by (simp_all add: example_defs)
  have r: "req_method (cookie_request ''/location'' ''pp_session=orphan'') \<noteq> ''OPTIONS''"
    "req_path (cookie_request ''/location'' ''pp_session=orphan'') = ''/location''"
    by (simp_all add: cookie_request_def)
  show ?thesis
    using session_resolution_fails_closed [OF nf nope,
            of "cookie_request ''/location'' ''pp_session=orphan''"]
          session_resolution_fails_closed [OF nf orphan,
            of "cookie_request ''/location'' ''pp_session=orphan''"]
          nf f r example_cookies(1,4)
    by simp (simp add: example_world_def)
qed

text \<open>
  C8, as the code has it. When reading the session id from the \<open>Cookie\<close> header does
  not throw and the store does not throw, logout answers 204 and clears the session
  cookie, whether or not a session row existed; a second logout with the same cookie does
  the same and leaves the store as the first left it. When decoding the cookie value
  throws, or the \<open>DELETE\<close> throws, logout answers 500 and does not clear the cookie.
\<close>

theorem logout_outcome:
  "(extractSessionId req = Inr sessionId \<and>
    map_of (faults w) (ops w) = None \<and> map_of (faults w) (Suc (ops w)) = None \<longrightarrow>
      (case logout req w of (res1, w1) \<Rightarrow>
         case logout req w1 of (res2, w2) \<Rightarrow>
           res1 = \<lparr>res_status = 204, res_body = NoBody, res_cookie = Some ClearCookie\<rparr> \<and>
           res2 = res1 \<and> committed w2 = committed w1 \<and>
           committed w1 = (case sessionId of None \<Rightarrow> committed w
                           | Some sid \<Rightarrow> if sid \<noteq> [] then delete_session sid (committed w)
                                         else committed w))) \<and>
   (extractSessionId req = Inl err \<longrightarrow>
      logout req w =
        (\<lparr>res_status = 500,
          res_body = ErrorJson (''Internal server error, '' @ message_or_err err),
          res_cookie = None\<rparr>,
         w\<lparr>trace := trace w @ [Respond 500]\<rparr>)) \<and>
   (extractSessionId req = Inr (Some sid) \<and> sid \<noteq> [] \<and> map_of (faults w) (ops w) = Some err \<longrightarrow>
      logout req w =
        (\<lparr>res_status = 500,
          res_body = ErrorJson (''Internal server error, '' @ message_or_err err),
          res_cookie = None\<rparr>,
         w\<lparr>trace := trace w @ [PoolQuery (DeleteSession sid), Respond 500], ops := Suc (ops w)\<rparr>))"
  by (auto simp: logout_def try_catch_def await_def of_result_def pool_query_def store_call_def
      resolve_def sending_def send_def clearSessionCookie_def new_response_def internal_error_def
      delete_session_twice Let_def split: option.splits)

theorem logout_outcome_witness:
  "extractSessionId (cookie_request ''/auth/logout'' ''theme=dark; pp_session=session-value'') =
     Inr (Some ''session-value'') \<and>
   fst (logout (cookie_request ''/auth/logout'' ''theme=dark; pp_session=session-value'')
          example_world) =
     \<lparr>res_status = 204, res_body = NoBody, res_cookie = Some ClearCookie\<rparr> \<and>
   fst (logout (cookie_request ''/auth/logout'' ''theme=dark; pp_session=session-value'')
          (snd (logout (cookie_request ''/auth/logout'' ''theme=dark; pp_session=session-value'')
                  example_world))) =
     \<lparr>res_status = 204, res_body = NoBody, res_cookie = Some ClearCookie\<rparr> \<and>
   committed (snd (logout (cookie_request ''/auth/logout'' ''theme=dark; pp_session=session-value'')
          (snd (logout (cookie_request ''/auth/logout'' ''theme=dark; pp_session=session-value'')
                  example_world)))) =
     delete_session ''session-value'' (committed example_world) \<and>
   user_session (delete_session ''session-value'' (committed example_world)) =
     [\<lparr>s_session_id = ''orphan'', s_user_id = 99\<rparr>] \<and>
   extractSessionId (cookie_request ''/auth/logout'' ''pp_session=%'') = Inl URIError \<and>
   logout (cookie_request ''/auth/logout'' ''pp_session=%'') example_world =
     (\<lparr>res_status = 500, res_body = ErrorJson ''Internal server error, URI malformed'',
       res_cookie = None\<rparr>,
      example_world\<lparr>trace := [Respond 500]\<rparr>) \<and>
   map_of (faults failing_world) (ops failing_world) = Some (Error ''Error'' ''connection terminated'') \<and>
   logout (cookie_request ''/auth/logout'' ''theme=dark; pp_session=session-value'') failing_world =
     (\<lparr>res_status = 500,
       res_body = ErrorJson ''Internal server error, connection terminated'',
       res_cookie = None\<rparr>,
      failing_world\<lparr>trace := [PoolQuery (DeleteSession ''session-value''), Respond 500],
                     ops := 1\<rparr>)"
proof -
  have w: "map_of (faults example_world) (ops example_world) = None"
    "map_of (faults example_world) (Suc (ops example_world)) = None"
    "map_of (faults failing_world) (ops failing_world) = Some (Error ''Error'' ''connection terminated'')"
    "trace example_world = []" "trace failing_world = []" "ops failing_world = 0"
    by (simp_all add: example_world_def failing_world_def)
  have d: "user_session (delete_session ''session-value'' (committed example_world)) =
     [\<lparr>s_session_id = ''orphan'', s_user_id = 99\<rparr>]"
    by (simp add: delete_session_def example_defs)
  have m: "message_or_err URIError = ''URI malformed''"
    "message_or_err (Error ''Error'' ''connection terminated'') = ''connection terminated''"
    by (simp_all add: message_or_err_def URIError_def)
  show ?thesis
    using logout_outcome [of "cookie_request ''/auth/logout'' ''theme=dark; pp_session=session-value''"
            "Some ''session-value''" example_world URIError "''session-value''"]
          logout_outcome [of "cookie_request ''/auth/logout'' ''pp_session=%''"
            None example_world URIError "''x''"]
          logout_outcome [of "cookie_request ''/auth/logout'' ''theme=dark; pp_session=session-value''"
            None failing_world "Error ''Error'' ''connection terminated''" "''session-value''"]
          example_cookies(2,3) w d m
    by (simp split: prod.splits)
qed

text \<open>
  The claim as it is written fails for a cookie value that is not a well-formed
  percent-encoding: \<open>decodeURIComponent\<close> throws, and logout answers 500 without
  clearing the cookie.
\<close>

theorem logout_malformed_cookie_counterexample:
  "extractSessionId (cookie_request ''/auth/logout'' ''pp_session=%'') = Inl URIError \<and>
   res_status (fst (logout (cookie_request ''/auth/logout'' ''pp_session=%'') example_world)) = 500 \<and>
   res_cookie (fst (logout (cookie_request ''/auth/logout'' ''pp_session=%'') example_world)) = None"
  by code_simp

end
